theory Spec2Isabelle
  imports
    Main
    "HOL-Library.Sublist"
    "HOL-Library.Char_ord"
    "HOL-Library.List_Lexorder"
    "HOL-Library.Product_Lexorder"
begin

section \<open>Permission system (src/lib/permissions.ts)\<close>

text \<open>
  At run time a role, a module and an action are JavaScript strings; the union types
  \<open>UserRole\<close>, \<open>ModuleValue\<close> and \<open>ActionValue\<close> are erased by the compiler. The
  model keeps them as strings, so that values with no entry in the matrix can be asked about.
\<close>

type_synonym UserRole = string
type_synonym ModuleValue = string
type_synonym ActionValue = string

definition MODULES :: "ModuleValue list" where
  \<comment> \<open>the values of the constant \<open>MODULES\<close>\<close>
  "MODULES =
    [''dashboard'', ''assets'', ''consumables'', ''maintenance'', ''projects'',
     ''organizations'', ''companies'', ''offices'', ''departments'', ''users'', ''vendors'',
     ''reports'', ''audit_logs'', ''settings'']"

definition ALL_ACTIONS :: "ActionValue list" where
  "ALL_ACTIONS = [''create'', ''read'', ''update'', ''delete'', ''export'']"

definition READ_ONLY :: "ActionValue list" where
  "READ_ONLY = [''read'', ''export'']"

definition READ_CREATE_UPDATE :: "ActionValue list" where
  "READ_CREATE_UPDATE = [''create'', ''read'', ''update'']"

text \<open>The own keys of the object literal \<open>ROLE_PERMISSIONS\<close>, in the order of the source.\<close>

definition ROLE_PERMISSIONS :: "(UserRole \<times> (ModuleValue \<times> ActionValue list) list) list" where
  "ROLE_PERMISSIONS =
    [(''SUPER_ADMIN'',
        [(''dashboard'', ALL_ACTIONS), (''assets'', ALL_ACTIONS), (''consumables'', ALL_ACTIONS),
         (''maintenance'', ALL_ACTIONS), (''projects'', ALL_ACTIONS),
         (''organizations'', ALL_ACTIONS), (''companies'', ALL_ACTIONS),
         (''offices'', ALL_ACTIONS), (''departments'', ALL_ACTIONS), (''users'', ALL_ACTIONS),
         (''vendors'', ALL_ACTIONS), (''reports'', ALL_ACTIONS),
         (''audit_logs'', [''read'', ''export'']), (''settings'', ALL_ACTIONS)]),
     (''TENANT_ADMIN'',
        [(''dashboard'', ALL_ACTIONS), (''assets'', ALL_ACTIONS), (''consumables'', ALL_ACTIONS),
         (''maintenance'', ALL_ACTIONS), (''projects'', ALL_ACTIONS),
         (''organizations'', ALL_ACTIONS), (''companies'', ALL_ACTIONS),
         (''offices'', ALL_ACTIONS), (''departments'', ALL_ACTIONS), (''users'', ALL_ACTIONS),
         (''vendors'', ALL_ACTIONS), (''reports'', ALL_ACTIONS),
         (''audit_logs'', [''read'', ''export'']), (''settings'', ALL_ACTIONS)]),
     (''ORG_ADMIN'',
        [(''dashboard'', [''read'']), (''assets'', ALL_ACTIONS), (''consumables'', ALL_ACTIONS),
         (''maintenance'', ALL_ACTIONS), (''projects'', ALL_ACTIONS),
         (''organizations'', [''read'', ''update'']), (''companies'', ALL_ACTIONS),
         (''offices'', ALL_ACTIONS), (''departments'', ALL_ACTIONS), (''users'', ALL_ACTIONS),
         (''vendors'', ALL_ACTIONS), (''reports'', [''read'', ''export'']),
         (''audit_logs'', [''read'']), (''settings'', [''read'', ''update''])]),
     (''IT_ADMIN'',
        [(''dashboard'', [''read'']), (''assets'', ALL_ACTIONS), (''consumables'', ALL_ACTIONS),
         (''maintenance'', ALL_ACTIONS), (''projects'', READ_CREATE_UPDATE),
         (''organizations'', [''read'']), (''companies'', [''read'']),
         (''offices'', [''read'']), (''departments'', [''read'']), (''users'', [''read'']),
         (''vendors'', READ_CREATE_UPDATE), (''reports'', [''read'', ''export'']),
         (''audit_logs'', [''read'']), (''settings'', [''read''])]),
     (''IT_TECHNICIAN'',
        [(''dashboard'', [''read'']), (''assets'', READ_CREATE_UPDATE),
         (''consumables'', [''read'', ''update'']), (''maintenance'', READ_CREATE_UPDATE),
         (''projects'', [''read'']), (''organizations'', [''read'']),
         (''companies'', [''read'']), (''offices'', [''read'']), (''departments'', [''read'']),
         (''users'', [''read'']), (''vendors'', [''read'']), (''reports'', [''read'']),
         (''audit_logs'', []), (''settings'', [])]),
     (''OFFICE_ADMIN'',
        [(''dashboard'', [''read'']), (''assets'', [''read'', ''update'']),
         (''consumables'', READ_CREATE_UPDATE), (''maintenance'', READ_CREATE_UPDATE),
         (''projects'', [''read'']), (''organizations'', [''read'']),
         (''companies'', [''read'']), (''offices'', [''read'', ''update'']),
         (''departments'', READ_CREATE_UPDATE), (''users'', [''read'']),
         (''vendors'', [''read'']), (''reports'', [''read'', ''export'']),
         (''audit_logs'', []), (''settings'', [''read''])]),
     (''FINANCE'',
        [(''dashboard'', [''read'']), (''assets'', [''read'', ''export'']),
         (''consumables'', [''read'', ''export'']), (''maintenance'', [''read'', ''export'']),
         (''projects'', [''read'', ''export'']), (''organizations'', [''read'']),
         (''companies'', [''read'']), (''offices'', [''read'']), (''departments'', [''read'']),
         (''users'', [''read'']), (''vendors'', [''read'', ''export'']),
         (''reports'', [''read'', ''export'']), (''audit_logs'', [''read'']),
         (''settings'', [])]),
     (''MANAGEMENT'',
        [(''dashboard'', [''read'']), (''assets'', READ_ONLY), (''consumables'', READ_ONLY),
         (''maintenance'', READ_ONLY), (''projects'', READ_ONLY),
         (''organizations'', [''read'']), (''companies'', [''read'']),
         (''offices'', [''read'']), (''departments'', [''read'']), (''users'', [''read'']),
         (''vendors'', [''read'']), (''reports'', [''read'', ''export'']),
         (''audit_logs'', [''read'']), (''settings'', [])])]"

subsection \<open>Property reads on the matrix\<close>

text \<open>
  \<open>ROLE_PERMISSIONS[role]\<close> and \<open>rolePermissions[module]\<close> are property reads on object
  literals: the key is looked for among the own keys and then along the prototype chain,
  which for an object literal is \<open>Object.prototype\<close>. A key such as \<open>constructor\<close> is
  therefore found although the literal does not list it. The tables below are the members
  that ECMAScript gives \<open>Object.prototype\<close>, \<open>Function.prototype\<close> and the \<open>Object\<close>
  constructor.
\<close>

datatype js_error = TypeError

datatype js_value =
    JSUndefined
  | JSNull
  | JSNumber nat
  | JSString string
  | JSArray "ActionValue list"
  | JSObject  \<comment> \<open>a function or an object that has no property \<open>includes\<close>\<close>

datatype builtin =
    ObjectConstructor
  | ObjectPrototype
  | BuiltinMethod string nat  \<comment> \<open>a built-in function, with its \<open>name\<close> and \<open>length\<close>\<close>

datatype matrix_member =
    OwnRole "(ModuleValue \<times> ActionValue list) list"
  | Inherited builtin
  | Missing

definition object_prototype_methods :: "(string \<times> nat) list" where
  "object_prototype_methods =
    [(''hasOwnProperty'', 1), (''isPrototypeOf'', 1), (''propertyIsEnumerable'', 1),
     (''toLocaleString'', 0), (''toString'', 0), (''valueOf'', 0),
     (''__defineGetter__'', 2), (''__defineSetter__'', 2),
     (''__lookupGetter__'', 1), (''__lookupSetter__'', 1)]"

definition object_prototype_keys :: "string list" where
  "object_prototype_keys = ''constructor'' # ''__proto__'' # map fst object_prototype_methods"

definition function_prototype_methods :: "string list" where
  "function_prototype_methods = [''apply'', ''bind'', ''call'', ''toString'', ''constructor'']"

definition object_static_members :: "string list" where
  "object_static_members =
    [''prototype'', ''assign'', ''create'', ''defineProperties'', ''defineProperty'', ''entries'',
     ''freeze'', ''fromEntries'', ''getOwnPropertyDescriptor'', ''getOwnPropertyDescriptors'',
     ''getOwnPropertyNames'', ''getOwnPropertySymbols'', ''getPrototypeOf'', ''groupBy'',
     ''hasOwn'', ''is'', ''isExtensible'', ''isFrozen'', ''isSealed'', ''keys'',
     ''preventExtensions'', ''seal'', ''setPrototypeOf'', ''values'']"

definition object_prototype_get :: "js_value \<Rightarrow> string \<Rightarrow> js_value" where
  \<comment> \<open>a key found on \<open>Object.prototype\<close>; the accessor \<open>__proto__\<close> returns the prototype
      of the receiver, passed as the first argument\<close>
  "object_prototype_get proto key =
     (if key = ''__proto__'' then proto
      else if key \<in> set object_prototype_keys then JSObject
      else JSUndefined)"

definition function_prototype_get :: "string \<Rightarrow> js_error + js_value" where
  \<comment> \<open>a key that is not an own key of a built-in function: \<open>Function.prototype\<close>, whose
      accessors \<open>caller\<close> and \<open>arguments\<close> throw, then \<open>Object.prototype\<close>\<close>
  "function_prototype_get key =
     (if key = ''caller'' \<or> key = ''arguments'' then Inl TypeError
      else if key \<in> set function_prototype_methods then Inr JSObject
      else Inr (object_prototype_get JSObject key))"

definition get_role :: "UserRole \<Rightarrow> matrix_member" where
  \<comment> \<open>\<open>ROLE_PERMISSIONS[role]\<close>\<close>
  "get_role role =
     (case map_of ROLE_PERMISSIONS role of
        Some rolePermissions \<Rightarrow> OwnRole rolePermissions
      | None \<Rightarrow>
          if role = ''constructor'' then Inherited ObjectConstructor
          else if role = ''__proto__'' then Inherited ObjectPrototype
          else (case map_of object_prototype_methods role of
                  Some n \<Rightarrow> Inherited (BuiltinMethod role n)
                | None \<Rightarrow> Missing))"

fun get_module :: "matrix_member \<Rightarrow> ModuleValue \<Rightarrow> js_error + js_value" where
  \<comment> \<open>\<open>rolePermissions[module]\<close>\<close>
  "get_module (OwnRole rolePermissions) module =
     (case map_of rolePermissions module of
        Some modulePermissions \<Rightarrow> Inr (JSArray modulePermissions)
      | None \<Rightarrow> Inr (object_prototype_get JSObject module))"
| "get_module (Inherited ObjectPrototype) module = Inr (object_prototype_get JSNull module)"
| "get_module (Inherited (BuiltinMethod name n)) module =
     (if module = ''name'' then Inr (JSString name)
      else if module = ''length'' then Inr (JSNumber n)
      else function_prototype_get module)"
| "get_module (Inherited ObjectConstructor) module =
     (if module = ''name'' then Inr (JSString ''Object'')
      else if module = ''length'' then Inr (JSNumber 1)
      else if module \<in> set object_static_members then Inr JSObject
      else function_prototype_get module)"
| "get_module Missing module = Inr JSUndefined"

fun falsy :: "js_value \<Rightarrow> bool" where
  "falsy JSUndefined = True"
| "falsy JSNull = True"
| "falsy (JSNumber n) = (n = 0)"
| "falsy (JSString s) = (s = [])"
| "falsy (JSArray xs) = False"
| "falsy JSObject = False"

fun js_includes :: "js_value \<Rightarrow> ActionValue \<Rightarrow> js_error + bool" where
  \<comment> \<open>\<open>modulePermissions.includes(action)\<close>: \<open>Array.prototype.includes\<close> on an array,
      \<open>String.prototype.includes\<close> on a string, and a call of \<open>undefined\<close> otherwise\<close>
  "js_includes (JSArray xs) action = Inr (action \<in> set xs)"
| "js_includes (JSString s) action = Inr (sublist action s)"
| "js_includes v action = Inl TypeError"

subsection \<open>Permission helpers\<close>

definition hasPermission :: "UserRole \<Rightarrow> ModuleValue \<Rightarrow> ActionValue \<Rightarrow> js_error + bool" where
  "hasPermission role module action =
     (case get_role role of
        Missing \<Rightarrow> Inr False
      | rolePermissions \<Rightarrow>
          (case get_module rolePermissions module of
             Inl e \<Rightarrow> Inl e
           | Inr modulePermissions \<Rightarrow>
               if falsy modulePermissions then Inr False
               else js_includes modulePermissions action))"

definition canAccessModule :: "UserRole \<Rightarrow> ModuleValue \<Rightarrow> js_error + bool" where
  "canAccessModule role module = hasPermission role module ''read''"

definition getAccessibleModules :: "UserRole \<Rightarrow> ModuleValue list" where
  \<comment> \<open>\<open>Object.entries\<close> lists the own enumerable keys: those of the literal for a role of
      the matrix, none for a built-in\<close>
  "getAccessibleModules role =
     (case get_role role of
        Missing \<Rightarrow> []
      | Inherited b \<Rightarrow> []
      | OwnRole rolePerms \<Rightarrow>
          map fst (filter (\<lambda>(module, actions). ''read'' \<in> set actions) rolePerms))"

definition roleHierarchy :: "UserRole list" where
  "roleHierarchy =
    [''SUPER_ADMIN'', ''TENANT_ADMIN'', ''ORG_ADMIN'', ''IT_ADMIN'', ''OFFICE_ADMIN'',
     ''IT_TECHNICIAN'', ''FINANCE'', ''MANAGEMENT'']"

fun indexOf :: "'a list \<Rightarrow> 'a \<Rightarrow> int" where
  "indexOf [] x = - 1"
| "indexOf (y # ys) x =
     (if y = x then 0 else (let i = indexOf ys x in if i = - 1 then - 1 else i + 1))"

definition slice :: "'a list \<Rightarrow> int \<Rightarrow> 'a list" where
  \<comment> \<open>\<open>Array.prototype.slice(start)\<close>; a negative start counts from the end\<close>
  "slice xs start =
     (if start < 0 then drop (nat (int (length xs) + start)) xs else drop (nat start) xs)"

definition getAssignableRoles :: "UserRole \<Rightarrow> UserRole list" where
  "getAssignableRoles currentUserRole =
     (let currentIndex = indexOf roleHierarchy currentUserRole in
      if currentIndex = - 1 then []
      else if currentIndex \<le> 1 then slice roleHierarchy 1
      else slice roleHierarchy (currentIndex + 1))"

section \<open>The document store (firebase/firestore)\<close>

text \<open>
  The hosted document store is an external collaborator. It is modelled by its contract: a
  collection is a list of documents, each an identifier with its data; a query filters,
  orders and limits a collection; a write batch applies its writes together or not at all.
  A query is answered whenever it is asked: the indexes that the hosted store requires for
  it are taken to exist.
  Document and tenant identifiers are single path segments. Time stamps are integers, and
  the clock readings of one operation are taken as one instant \<open>now\<close>. A JavaScript
  property whose value is \<open>undefined\<close> is not written (the services pass such properties
  on purpose, for instance \<open>from_user_id: asset.assigned_to || undefined\<close>).
\<close>

datatype error =
    Error string           \<comment> \<open>\<open>new Error(message)\<close>\<close>
  | FirestoreError string  \<comment> \<open>an error of the store, with its code\<close>

datatype fvalue = VNull | VBool bool | VNum int | VTime int | VStr string

type_synonym fields = "string \<rightharpoonup> fvalue"
type_synonym 'a doc = "string \<times> 'a"
type_synonym 'a collection = "'a doc list"
type_synonym path = "string list"
type_synonym firestore = "path \<Rightarrow> fields collection"

datatype direction = Asc | Desc

text \<open>
  A filter \<open>where(fieldPath, opStr, value)\<close> is \<open>Where fieldPath\<close> with the comparison and
  its operand: \<open><\<close>, \<open><=\<close>, \<open>==\<close>, \<open>!=\<close>, \<open>>=\<close>, \<open>>\<close> and \<open>in\<close>, the operators that the services and
  \<open>buildQueryConstraints\<close> use. \<open>OrderBy\<close> and \<open>Limit\<close> are \<open>orderBy(fieldPath, directionStr)\<close>
  and \<open>limit(n)\<close>.
\<close>

datatype WhereFilter =
    LessThan fvalue
  | LessThanOrEqual fvalue
  | EqualTo fvalue
  | NotEqualTo fvalue
  | GreaterThanOrEqual fvalue
  | GreaterThan fvalue
  | InValues "fvalue list"

datatype QueryConstraint =
    Where string WhereFilter
  | OrderBy string direction
  | Limit nat

fun fvalue_key :: "fvalue \<Rightarrow> nat \<times> int \<times> string" where
  \<comment> \<open>the store orders values by type (null, boolean, number, time stamp, string) and then
      by value\<close>
  "fvalue_key VNull = (0, 0, [])"
| "fvalue_key (VBool b) = (1, if b then 1 else 0, [])"
| "fvalue_key (VNum n) = (2, n, [])"
| "fvalue_key (VTime t) = (3, t, [])"
| "fvalue_key (VStr s) = (4, 0, s)"

definition order_key :: "fvalue option \<Rightarrow> nat \<times> int \<times> string" where
  "order_key v = (case v of None \<Rightarrow> (0, 0, []) | Some x \<Rightarrow> fvalue_key x)"

definition field_value :: "('a \<Rightarrow> fields) \<Rightarrow> 'a doc \<Rightarrow> string \<Rightarrow> fvalue option" where
  \<comment> \<open>the value that a query reads at a field path; \<open>data\<close> gives the fields of a stored
      document, and the path \<open>__name__\<close> reads the document identifier\<close>
  "field_value data doc fieldPath =
     (if fieldPath = ''__name__'' then Some (VStr (fst doc)) else data (snd doc) fieldPath)"

definition comparable :: "fvalue \<Rightarrow> fvalue \<Rightarrow> bool" where
  \<comment> \<open>a range comparison holds between values of one type only; the client refuses to
      build one with \<open>null\<close>, which here no document passes\<close>
  "comparable v x = (x \<noteq> VNull \<and> fst (fvalue_key v) = fst (fvalue_key x))"

fun satisfies :: "fvalue option \<Rightarrow> WhereFilter \<Rightarrow> bool" where
  \<comment> \<open>a document without the field passes no filter; \<open>!=\<close> passes neither \<open>null\<close> nor the
      operand\<close>
  "satisfies None w = False"
| "satisfies (Some v) (LessThan x) = (comparable v x \<and> fvalue_key v < fvalue_key x)"
| "satisfies (Some v) (LessThanOrEqual x) = (comparable v x \<and> fvalue_key v \<le> fvalue_key x)"
| "satisfies (Some v) (EqualTo x) = (v = x)"
| "satisfies (Some v) (NotEqualTo x) = (v \<noteq> VNull \<and> v \<noteq> x)"
| "satisfies (Some v) (GreaterThanOrEqual x) = (comparable v x \<and> fvalue_key x \<le> fvalue_key v)"
| "satisfies (Some v) (GreaterThan x) = (comparable v x \<and> fvalue_key x < fvalue_key v)"
| "satisfies (Some v) (InValues xs) = (v \<in> set xs)"

fun inequality :: "WhereFilter \<Rightarrow> bool" where
  "inequality (EqualTo x) = False"
| "inequality (InValues xs) = False"
| "inequality w = True"

fun where_constraints :: "QueryConstraint list \<Rightarrow> (string \<times> WhereFilter) list" where
  "where_constraints [] = []"
| "where_constraints (Where f w # cs) = (f, w) # where_constraints cs"
| "where_constraints (c # cs) = where_constraints cs"

fun order_constraints :: "QueryConstraint list \<Rightarrow> (string \<times> direction) list" where
  "order_constraints [] = []"
| "order_constraints (OrderBy f d # cs) = (f, d) # order_constraints cs"
| "order_constraints (c # cs) = order_constraints cs"

fun limit_constraint :: "QueryConstraint list \<Rightarrow> nat option" where
  \<comment> \<open>a later \<open>limit\<close> replaces an earlier one\<close>
  "limit_constraint [] = None"
| "limit_constraint (Limit n # cs) =
     (case limit_constraint cs of None \<Rightarrow> Some n | Some m \<Rightarrow> Some m)"
| "limit_constraint (c # cs) = limit_constraint cs"

definition inequality_fields :: "QueryConstraint list \<Rightarrow> string list" where
  \<comment> \<open>the fields under an inequality filter, each once, in the order of their names\<close>
  "inequality_fields cs =
     sort (remdups (map fst (filter (\<lambda>(f, w). inequality w) (where_constraints cs))))"

definition normalized_order_by :: "QueryConstraint list \<Rightarrow> (string \<times> direction) list" where
  \<comment> \<open>the ordering that the client sends with a query: the \<open>orderBy\<close> constraints as given,
      then the fields under an inequality filter that are not among them, then the document
      identifier unless it is among them; the added ones in the direction of the last
      \<open>orderBy\<close>, ascending when there is none\<close>
  "normalized_order_by cs =
     (let explicitOrderBy = order_constraints cs;
          lastDirection = (if explicitOrderBy = [] then Asc else snd (last explicitOrderBy));
          implicit =
            filter (\<lambda>f. f \<notin> fst ` set explicitOrderBy \<and> f \<noteq> ''__name__'') (inequality_fields cs)
      in explicitOrderBy @ map (\<lambda>f. (f, lastDirection)) implicit @
         (if ''__name__'' \<in> fst ` set explicitOrderBy then [] else [(''__name__'', lastDirection)]))"

fun sort_docs :: "('a doc \<Rightarrow> 'k::linorder) \<Rightarrow> direction \<Rightarrow> 'a doc list \<Rightarrow> 'a doc list" where
  \<comment> \<open>a stable sort in either direction\<close>
  "sort_docs k Asc ds = sort_key k ds"
| "sort_docs k Desc ds = rev (sort_key k (rev ds))"

definition matching_docs ::
  "('a \<Rightarrow> fields) \<Rightarrow> 'a collection \<Rightarrow> QueryConstraint list \<Rightarrow> 'a doc list" where
  \<comment> \<open>the documents that pass every filter and have every ordering field\<close>
  "matching_docs data c cs =
     filter (\<lambda>doc. list_all (\<lambda>(f, w). satisfies (field_value data doc f) w) (where_constraints cs) \<and>
                    list_all (\<lambda>(f, dir). field_value data doc f \<noteq> None) (order_constraints cs)) c"

definition ordered_docs ::
  "('a \<Rightarrow> fields) \<Rightarrow> 'a collection \<Rightarrow> QueryConstraint list \<Rightarrow> 'a doc list" where
  \<comment> \<open>ordered by the first field of the ordering, ties by the second, and so on\<close>
  "ordered_docs data c cs =
     foldr (\<lambda>(f, dir) ds. sort_docs (\<lambda>doc. order_key (field_value data doc f)) dir ds)
       (normalized_order_by cs) (matching_docs data c cs)"

definition getDocs ::
  "('a \<Rightarrow> fields) \<Rightarrow> 'a collection \<Rightarrow> QueryConstraint list \<Rightarrow> 'a doc list" where
  \<comment> \<open>\<open>getDocs(query(collectionRef, ...constraints))\<close>\<close>
  "getDocs data c cs =
     (case limit_constraint cs of
        None \<Rightarrow> ordered_docs data c cs
      | Some n \<Rightarrow> take n (ordered_docs data c cs))"

definition getDoc :: "'a collection \<Rightarrow> string \<Rightarrow> 'a option" where
  "getDoc c i = map_of c i"

definition setDoc :: "'a collection \<Rightarrow> string \<Rightarrow> 'a \<Rightarrow> 'a collection" where
  \<comment> \<open>create the document or overwrite it\<close>
  "setDoc c i d =
     (if i \<in> fst ` set c then map (\<lambda>(j, e). if j = i then (j, d) else (j, e)) c
      else c @ [(i, d)])"

definition changeDoc :: "'a collection \<Rightarrow> string \<Rightarrow> ('a \<Rightarrow> 'a) \<Rightarrow> 'a collection" where
  "changeDoc c i f = map (\<lambda>(j, e). if j = i then (j, f e) else (j, e)) c"

definition deleteDoc :: "'a collection \<Rightarrow> string \<Rightarrow> 'a collection" where
  "deleteDoc c i = filter (\<lambda>(j, e). j \<noteq> i) c"

definition autoId :: "'a collection \<Rightarrow> string" where
  \<comment> \<open>\<open>doc(collectionRef)\<close> and \<open>addDoc\<close> draw an identifier that no document of the
      collection has; the model takes one longer than all of them\<close>
  "autoId c = replicate (Suc (foldr (\<lambda>(i, d) n. max (length i) n) c 0)) (CHR ''0'')"

text \<open>
  A write batch holds the store as it will be once the batch commits (identifiers for new
  documents are drawn against it) and the error that the commit will raise: an update of a
  document that does not exist makes the whole commit fail.
\<close>

record 's WriteBatch =
  working :: 's
  failure :: "error option"

definition writeBatch :: "'s \<Rightarrow> 's WriteBatch" where
  "writeBatch db = \<lparr>working = db, failure = None\<rparr>"

definition batch_fail :: "'s WriteBatch \<Rightarrow> error \<Rightarrow> 's WriteBatch" where
  "batch_fail b e = b\<lparr>failure := (case failure b of None \<Rightarrow> Some e | Some e' \<Rightarrow> Some e')\<rparr>"

definition commit :: "'s \<Rightarrow> 's WriteBatch \<Rightarrow> (error + unit) \<times> 's" where
  "commit db b = (case failure b of Some e \<Rightarrow> (Inl e, db) | None \<Rightarrow> (Inr (), working b))"

definition batch_set :: "firestore WriteBatch \<Rightarrow> path \<Rightarrow> string \<Rightarrow> fields \<Rightarrow> firestore WriteBatch" where
  "batch_set b p i d = b\<lparr>working := (working b)(p := setDoc (working b p) i d)\<rparr>"

definition batch_update ::
  "firestore WriteBatch \<Rightarrow> path \<Rightarrow> string \<Rightarrow> fields \<Rightarrow> firestore WriteBatch" where
  \<comment> \<open>the given fields replace those of the document, the others stay\<close>
  "batch_update b p i d =
     (if i \<in> fst ` set (working b p)
      then b\<lparr>working := (working b)(p := changeDoc (working b p) i (\<lambda>old. old ++ d))\<rparr>
      else batch_fail b (FirestoreError ''not-found''))"

definition updateDoc :: "firestore \<Rightarrow> path \<Rightarrow> string \<Rightarrow> fields \<Rightarrow> (error + unit) \<times> firestore" where
  \<comment> \<open>a single update is a batch of one: it fails with \<open>not-found\<close> when the document
      does not exist\<close>
  "updateDoc db p i d = commit db (batch_update (writeBatch db) p i d)"

definition batch_delete :: "firestore WriteBatch \<Rightarrow> path \<Rightarrow> string \<Rightarrow> firestore WriteBatch" where
  "batch_delete b p i = b\<lparr>working := (working b)(p := deleteDoc (working b p) i)\<rparr>"

section \<open>Tenant-scoped repository base (class BaseService)\<close>

text \<open>
  Every service object holds the field \<open>tenantId\<close>, \<open>null\<close> until \<open>setTenant\<close> is called.
  The test \<open>!this.tenantId\<close> holds for \<open>null\<close> and for the empty string.
\<close>

record tenant_context =
  tenantId :: "string option"

record BaseService = tenant_context +
  collectionName :: string

definition BaseService_new :: "string \<Rightarrow> BaseService" where
  "BaseService_new name = \<lparr>tenantId = None, collectionName = name\<rparr>"

definition setTenant :: "'a tenant_context_scheme \<Rightarrow> string \<Rightarrow> 'a tenant_context_scheme" where
  "setTenant s t = s\<lparr>tenantId := Some t\<rparr>"

definition bound_tenant :: "'a tenant_context_scheme \<Rightarrow> string option" where
  "bound_tenant s = (case tenantId s of None \<Rightarrow> None | Some t \<Rightarrow> if t = [] then None else Some t)"

definition getCollectionRef :: "BaseService \<Rightarrow> error + path" where
  "getCollectionRef s =
     (case bound_tenant s of
        None \<Rightarrow> Inl (Error ''Tenant ID must be set before performing operations'')
      | Some t \<Rightarrow> Inr [''tenants'', t, collectionName s])"

definition getDocRef :: "BaseService \<Rightarrow> string \<Rightarrow> error + path \<times> string" where
  "getDocRef s i = (case getCollectionRef s of Inl e \<Rightarrow> Inl e | Inr p \<Rightarrow> Inr (p, i))"

definition addAuditFields :: "BaseService \<Rightarrow> fields \<Rightarrow> string \<Rightarrow> bool \<Rightarrow> int \<Rightarrow> fields" where
  "addAuditFields s data userId isNew now =
     (if isNew then
        data(''tenant_id'' \<mapsto> (case tenantId s of None \<Rightarrow> VNull | Some t \<Rightarrow> VStr t),
             ''created_at'' \<mapsto> VTime now, ''created_by'' \<mapsto> VStr userId,
             ''updated_at'' \<mapsto> VTime now, ''updated_by'' \<mapsto> VStr userId)
      else data(''updated_at'' \<mapsto> VTime now, ''updated_by'' \<mapsto> VStr userId))"

definition entity :: "fields doc \<Rightarrow> fields" where
  \<comment> \<open>\<open>{ id: doc.id, ...doc.data() }\<close>\<close>
  "entity = (\<lambda>(i, d). [''id'' \<mapsto> VStr i] ++ d)"

definition getById :: "BaseService \<Rightarrow> string \<Rightarrow> firestore \<Rightarrow> error + fields option" where
  "getById s i db =
     (case getDocRef s i of
        Inl e \<Rightarrow> Inl e
      | Inr (p, j) \<Rightarrow>
          (case getDoc (db p) j of
             None \<Rightarrow> Inr None
           | Some d \<Rightarrow> Inr (Some (entity (j, d)))))"

definition getAll :: "BaseService \<Rightarrow> QueryConstraint list \<Rightarrow> firestore \<Rightarrow> error + fields list" where
  "getAll s constraints db =
     (case getCollectionRef s of
        Inl e \<Rightarrow> Inl e
      | Inr collectionRef \<Rightarrow> Inr (map entity (getDocs (\<lambda>d. d) (db collectionRef) constraints)))"

record SortOption =
  sort_field :: string
  sort_direction :: direction

record QueryParams =
  param_page :: "nat option"
  param_page_size :: "nat option"
  param_sort :: "SortOption option"

record 'a PaginatedResponse =
  resp_data :: "'a list"
  resp_total :: nat
  resp_page :: nat
  resp_page_size :: nat
  resp_has_more :: bool

definition getPaginated ::
  "BaseService \<Rightarrow> QueryParams \<Rightarrow> QueryConstraint list \<Rightarrow> firestore \<Rightarrow>
   error + fields PaginatedResponse" where
  "getPaginated s params additionalConstraints db =
     (let page = (case param_page params of None \<Rightarrow> 1 | Some n \<Rightarrow> n);
          page_size = (case param_page_size params of None \<Rightarrow> 25 | Some n \<Rightarrow> n);
          constraints =
            additionalConstraints @
            [case param_sort params of
               Some sortOption \<Rightarrow> OrderBy (sort_field sortOption) (sort_direction sortOption)
             | None \<Rightarrow> OrderBy ''created_at'' Desc] @
            [Limit (page_size + 1)]
      in case getCollectionRef s of
           Inl e \<Rightarrow> Inl e
         | Inr collectionRef \<Rightarrow>
             (let docs = getDocs (\<lambda>d. d) (db collectionRef) constraints
              in Inr \<lparr>resp_data = map entity (take page_size docs), resp_total = 0,
                      resp_page = page, resp_page_size = page_size,
                      resp_has_more = (length docs > page_size)\<rparr>))"

definition create ::
  "BaseService \<Rightarrow> fields \<Rightarrow> string \<Rightarrow> int \<Rightarrow> firestore \<Rightarrow> (error + fields) \<times> firestore" where
  "create s data userId now db =
     (let docData = addAuditFields s data userId True now
      in case getCollectionRef s of
           Inl e \<Rightarrow> (Inl e, db)
         | Inr p \<Rightarrow>
             (let i = autoId (db p)
              in (Inr (entity (i, docData)), db(p := setDoc (db p) i docData))))"

definition update ::
  "BaseService \<Rightarrow> string \<Rightarrow> fields \<Rightarrow> string \<Rightarrow> int \<Rightarrow> firestore \<Rightarrow> (error + unit) \<times> firestore" where
  "update s i data userId now db =
     (case getDocRef s i of
        Inl e \<Rightarrow> (Inl e, db)
      | Inr (p, j) \<Rightarrow>
          (let updateData = addAuditFields s data userId False now
           in updateDoc db p j updateData))"

definition delete :: "BaseService \<Rightarrow> string \<Rightarrow> firestore \<Rightarrow> (error + unit) \<times> firestore" where
  "delete s i db =
     (case getDocRef s i of
        Inl e \<Rightarrow> (Inl e, db)
      | Inr (p, j) \<Rightarrow> (Inr (), db(p := deleteDoc (db p) j)))"

datatype op_type = op_create | op_update | op_delete

record BatchOperation =
  op_kind :: op_type
  op_id :: "string option"
  op_data :: "fields option"
  op_userId :: "string option"

definition truthy :: "string option \<Rightarrow> bool" where
  \<comment> \<open>an absent (\<open>undefined\<close>) or empty string is falsy\<close>
  "truthy x = (case x of None \<Rightarrow> False | Some v \<Rightarrow> v \<noteq> [])"

fun batchWrite_loop ::
  "BaseService \<Rightarrow> int \<Rightarrow> BatchOperation list \<Rightarrow> firestore WriteBatch \<Rightarrow>
   error + firestore WriteBatch" where
  "batchWrite_loop s now [] batch = Inr batch"
| "batchWrite_loop s now (op # operations) batch =
     (if op_kind op = op_create \<and> op_data op \<noteq> None \<and> truthy (op_userId op) then
        (case getCollectionRef s of
           Inl e \<Rightarrow> Inl e
         | Inr p \<Rightarrow>
             batchWrite_loop s now operations
               (batch_set batch p (autoId (working batch p))
                  (addAuditFields s (the (op_data op)) (the (op_userId op)) True now)))
      else if op_kind op = op_update \<and> truthy (op_id op) \<and> op_data op \<noteq> None \<and>
              truthy (op_userId op) then
        (case getDocRef s (the (op_id op)) of
           Inl e \<Rightarrow> Inl e
         | Inr (p, j) \<Rightarrow>
             batchWrite_loop s now operations
               (batch_update batch p j
                  (addAuditFields s (the (op_data op)) (the (op_userId op)) False now)))
      else if op_kind op = op_delete \<and> truthy (op_id op) then
        (case getDocRef s (the (op_id op)) of
           Inl e \<Rightarrow> Inl e
         | Inr (p, j) \<Rightarrow> batchWrite_loop s now operations (batch_delete batch p j))
      else batchWrite_loop s now operations batch)"

definition batchWrite ::
  "BaseService \<Rightarrow> BatchOperation list \<Rightarrow> int \<Rightarrow> firestore \<Rightarrow> (error + unit) \<times> firestore" where
  "batchWrite s operations now db =
     (case batchWrite_loop s now operations (writeBatch db) of
        Inl e \<Rightarrow> (Inl e, db)
      | Inr batch \<Rightarrow> commit db batch)"

section \<open>Asset service (src/services/asset.service.ts)\<close>

text \<open>
  The collection names come from the object \<open>COLLECTIONS\<close> of \<open>@/lib/constants\<close>, where
  \<open>ASSETS\<close> is \<open>'assets'\<close> and \<open>ASSET_EVENTS\<close> is \<open>'events'\<close>. The service is modelled for any
  such names, given as a parameter. The constructor of \<open>AssetService\<close> passes
  \<open>COLLECTIONS.ASSETS\<close> to the base class.
\<close>

record COLLECTIONS =
  ASSETS :: string
  ASSET_EVENTS :: string

definition AssetService_new :: "COLLECTIONS \<Rightarrow> BaseService" where
  "AssetService_new C = BaseService_new (ASSETS C)"

definition transferToOffice ::
  "COLLECTIONS \<Rightarrow> BaseService \<Rightarrow> string \<Rightarrow> string \<Rightarrow> string \<Rightarrow> string option \<Rightarrow> int \<Rightarrow>
   firestore \<Rightarrow> (error + unit) \<times> firestore" where
  "transferToOffice C s assetId toOfficeId transferredBy notes now db =
     (case bound_tenant s of
        None \<Rightarrow> (Inl (Error ''Tenant ID must be set''), db)
      | Some tid \<Rightarrow>
          (case getById s assetId db of
             Inl e \<Rightarrow> (Inl e, db)
           | Inr None \<Rightarrow> (Inl (Error ''Asset not found''), db)
           | Inr (Some asset) \<Rightarrow>
               (let fromOfficeId = asset ''office_id'';
                    assetPath = [''tenants'', tid, ASSETS C];
                    batch = batch_update (writeBatch db) assetPath assetId
                      [''office_id'' \<mapsto> VStr toOfficeId,
                       ''assigned_to'' \<mapsto> VNull,
                       ''assigned_at'' \<mapsto> VNull,
                       ''status'' \<mapsto> VStr ''available'',
                       ''updated_at'' \<mapsto> VTime now,
                       ''updated_by'' \<mapsto> VStr transferredBy];
                    eventsPath = assetPath @ [assetId, ASSET_EVENTS C];
                    eventId = autoId (working batch eventsPath);
                    eventData =
                      [''tenant_id'' \<mapsto> VStr tid,
                       ''asset_id'' \<mapsto> VStr assetId,
                       ''event_type'' \<mapsto> VStr ''transferred'',
                       ''description'' \<mapsto>
                          VStr (if truthy notes then the notes
                                else ''Asset transferred to another office''),
                       ''to_office_id'' \<mapsto> VStr toOfficeId,
                       ''created_at'' \<mapsto> VTime now,
                       ''created_by'' \<mapsto> VStr transferredBy]
                      (''from_office_id'' := fromOfficeId)
                in commit db (batch_set batch eventsPath eventId eventData))))"

section \<open>Maintenance service (src/services/maintenance.service.ts)\<close>

definition assign ::
  "BaseService \<Rightarrow> string \<Rightarrow> string \<Rightarrow> string \<Rightarrow> int \<Rightarrow> firestore \<Rightarrow> (error + unit) \<times> firestore" where
  "assign s ticketId technicianId assignedBy now db =
     update s ticketId
       [''assigned_to'' \<mapsto> VStr technicianId,
        ''assigned_at'' \<mapsto> VTime now,
        ''status'' \<mapsto> VStr ''in_progress'']
       assignedBy now db"

definition startWork ::
  "BaseService \<Rightarrow> string \<Rightarrow> string \<Rightarrow> int \<Rightarrow> firestore \<Rightarrow> (error + unit) \<times> firestore" where
  "startWork s ticketId userId now db =
     update s ticketId
       [''status'' \<mapsto> VStr ''in_progress'',
        ''started_at'' \<mapsto> VTime now]
       userId now db"

section \<open>Stock service (class StockService of the consumable service)\<close>

text \<open>
  The stock documents are read back through the interface \<open>OfficeStock\<close> and the service
  computes with their \<open>quantity\<close>; they are records. Quantities are whole numbers.
\<close>

record OfficeStock =
  tenant_id :: string
  office_id :: string
  consumable_id :: string
  quantity :: int
  last_restocked :: "int option"
  last_issued :: "int option"
  updated_at :: int

datatype StockTransactionType =
  Restock | Issue | TransferOut | TransferIn | Adjustment | Return

record StockTransaction =
  tenant_id :: string
  office_id :: string
  consumable_id :: string
  txn_type :: StockTransactionType
  quantity :: int
  issued_to :: "string option"
  transferred_to_office :: "string option"
  transferred_from_office :: "string option"
  reference_number :: "string option"
  txn_notes :: "string option"
  created_at :: int
  created_by :: string

record StockDb =
  office_stock :: "string \<Rightarrow> OfficeStock collection"
  stock_transactions :: "string \<Rightarrow> StockTransaction collection"

definition StockService_new :: tenant_context where
  "StockService_new = \<lparr>tenantId = None\<rparr>"

definition stock_update ::
  "StockDb WriteBatch \<Rightarrow> string \<Rightarrow> string \<Rightarrow> (OfficeStock \<Rightarrow> OfficeStock) \<Rightarrow> StockDb WriteBatch" where
  "stock_update b t i f =
     (if i \<in> fst ` set (office_stock (working b) t)
      then b\<lparr>working := (working b)
             \<lparr>office_stock := (office_stock (working b))
                (t := changeDoc (office_stock (working b) t) i f)\<rparr>\<rparr>
      else batch_fail b (FirestoreError ''not-found''))"

definition stock_set ::
  "StockDb WriteBatch \<Rightarrow> string \<Rightarrow> string \<Rightarrow> OfficeStock \<Rightarrow> StockDb WriteBatch" where
  "stock_set b t i d =
     b\<lparr>working := (working b)
        \<lparr>office_stock := (office_stock (working b))
           (t := setDoc (office_stock (working b) t) i d)\<rparr>\<rparr>"

definition transaction_set ::
  "StockDb WriteBatch \<Rightarrow> string \<Rightarrow> string \<Rightarrow> StockTransaction \<Rightarrow> StockDb WriteBatch" where
  "transaction_set b t i d =
     b\<lparr>working := (working b)
        \<lparr>stock_transactions := (stock_transactions (working b))
           (t := setDoc (stock_transactions (working b) t) i d)\<rparr>\<rparr>"

definition OfficeStock_data :: "OfficeStock \<Rightarrow> fields" where
  \<comment> \<open>the fields of a stock document, as a query reads them\<close>
  "OfficeStock_data d =
     [''tenant_id'' \<mapsto> VStr (OfficeStock.tenant_id d),
      ''office_id'' \<mapsto> VStr (OfficeStock.office_id d),
      ''consumable_id'' \<mapsto> VStr (OfficeStock.consumable_id d),
      ''quantity'' \<mapsto> VNum (OfficeStock.quantity d),
      ''updated_at'' \<mapsto> VTime (OfficeStock.updated_at d)] ++
     (case last_restocked d of None \<Rightarrow> Map.empty | Some t \<Rightarrow> [''last_restocked'' \<mapsto> VTime t]) ++
     (case last_issued d of None \<Rightarrow> Map.empty | Some t \<Rightarrow> [''last_issued'' \<mapsto> VTime t])"

definition getConsumableStock ::
  "tenant_context \<Rightarrow> string \<Rightarrow> string \<Rightarrow> StockDb \<Rightarrow> error + OfficeStock doc option" where
  "getConsumableStock s officeId consumableId sdb =
     (case bound_tenant s of
        None \<Rightarrow> Inl (Error ''Tenant ID must be set'')
      | Some t \<Rightarrow>
          (case getDocs OfficeStock_data (office_stock sdb t)
                  [Where ''office_id'' (EqualTo (VStr officeId)),
                   Where ''consumable_id'' (EqualTo (VStr consumableId))] of
             [] \<Rightarrow> Inr None
           | d # ds \<Rightarrow> Inr (Some d)))"

definition issue ::
  "tenant_context \<Rightarrow> string \<Rightarrow> string \<Rightarrow> int \<Rightarrow> string \<Rightarrow> string \<Rightarrow> string option \<Rightarrow> int \<Rightarrow>
   StockDb \<Rightarrow> (error + unit) \<times> StockDb" where
  "issue s officeId consumableId qty issuedTo userId notes now sdb =
     (case bound_tenant s of
        None \<Rightarrow> (Inl (Error ''Tenant ID must be set''), sdb)
      | Some t \<Rightarrow>
          (case getConsumableStock s officeId consumableId sdb of
             Inl e \<Rightarrow> (Inl e, sdb)
           | Inr None \<Rightarrow> (Inl (Error ''Insufficient stock''), sdb)
           | Inr (Some (stockId, existingStock)) \<Rightarrow>
               if OfficeStock.quantity existingStock < qty
               then (Inl (Error ''Insufficient stock''), sdb)
               else
                 (let batch = stock_update (writeBatch sdb) t stockId
                        (\<lambda>d. d\<lparr>OfficeStock.quantity := OfficeStock.quantity d + (- qty),
                                last_issued := Some now,
                                OfficeStock.updated_at := now\<rparr>);
                      transactionId = autoId (stock_transactions (working batch) t);
                      transactionData =
                        \<lparr>tenant_id = t, office_id = officeId, consumable_id = consumableId,
                         txn_type = Issue, quantity = qty, issued_to = Some issuedTo,
                         transferred_to_office = None, transferred_from_office = None,
                         reference_number = None, txn_notes = notes,
                         created_at = now, created_by = userId\<rparr>
                  in commit sdb (transaction_set batch t transactionId transactionData))))"

definition transfer ::
  "tenant_context \<Rightarrow> string \<Rightarrow> string \<Rightarrow> string \<Rightarrow> int \<Rightarrow> string \<Rightarrow> string option \<Rightarrow> int \<Rightarrow>
   StockDb \<Rightarrow> (error + unit) \<times> StockDb" where
  "transfer s fromOfficeId toOfficeId consumableId qty userId notes now sdb =
     (case bound_tenant s of
        None \<Rightarrow> (Inl (Error ''Tenant ID must be set''), sdb)
      | Some t \<Rightarrow>
          (case getConsumableStock s fromOfficeId consumableId sdb of
             Inl e \<Rightarrow> (Inl e, sdb)
           | Inr None \<Rightarrow> (Inl (Error ''Insufficient stock in source office''), sdb)
           | Inr (Some (sourceId, sourceStock)) \<Rightarrow>
               if OfficeStock.quantity sourceStock < qty
               then (Inl (Error ''Insufficient stock in source office''), sdb)
               else
                 (let batch = stock_update (writeBatch sdb) t sourceId
                        (\<lambda>d. d\<lparr>OfficeStock.quantity := OfficeStock.quantity d + (- qty),
                                OfficeStock.updated_at := now\<rparr>)
                  in case getConsumableStock s toOfficeId consumableId sdb of
                       Inl e \<Rightarrow> (Inl e, sdb)
                     | Inr destStock \<Rightarrow>
                         (let batch =
                                (case destStock of
                                   Some (destId, dest) \<Rightarrow>
                                     stock_update batch t destId
                                       (\<lambda>d. d\<lparr>OfficeStock.quantity :=
                                                 OfficeStock.quantity d + qty,
                                               OfficeStock.updated_at := now\<rparr>)
                                 | None \<Rightarrow>
                                     stock_set batch t (autoId (office_stock (working batch) t))
                                       \<lparr>OfficeStock.tenant_id = t,
                                        OfficeStock.office_id = toOfficeId,
                                        OfficeStock.consumable_id = consumableId,
                                        OfficeStock.quantity = qty,
                                        last_restocked = None, last_issued = None,
                                        OfficeStock.updated_at = now\<rparr>);
                              batch = transaction_set batch t
                                (autoId (stock_transactions (working batch) t))
                                \<lparr>tenant_id = t, office_id = fromOfficeId,
                                 consumable_id = consumableId, txn_type = TransferOut,
                                 quantity = qty, issued_to = None,
                                 transferred_to_office = Some toOfficeId,
                                 transferred_from_office = None, reference_number = None,
                                 txn_notes = notes, created_at = now, created_by = userId\<rparr>;
                              batch = transaction_set batch t
                                (autoId (stock_transactions (working batch) t))
                                \<lparr>tenant_id = t, office_id = toOfficeId,
                                 consumable_id = consumableId, txn_type = TransferIn,
                                 quantity = qty, issued_to = None,
                                 transferred_to_office = None,
                                 transferred_from_office = Some fromOfficeId,
                                 reference_number = None, txn_notes = notes,
                                 created_at = now, created_by = userId\<rparr>
                          in commit sdb batch))))"

section \<open>Audit log service (src/services/audit.service.ts)\<close>

record Change =
  change_field :: string
  old_value :: fvalue
  new_value :: fvalue

record AuditLog =
  tenant_id :: string
  organization_id :: string
  log_action :: string
  log_module :: string
  entity_type :: string
  entity_id :: string
  entity_name :: "string option"
  description :: string
  changes :: "Change list option"
  user_id :: string
  user_email :: string
  user_name :: string
  ip_address :: "string option"
  user_agent :: "string option"
  created_at :: int

type_synonym AuditDb = "string \<Rightarrow> AuditLog collection"

record LogParams =
  p_action :: string
  p_module :: string
  p_entityType :: string
  p_entityId :: string
  p_entityName :: "string option"
  p_description :: string
  p_changes :: "Change list option"
  p_userId :: string
  p_userEmail :: string
  p_userName :: string
  p_organizationId :: string
  p_ipAddress :: "string option"
  p_userAgent :: "string option"

text \<open>The argument \<open>user\<close> of the logging helpers: its \<open>id\<close>, \<open>email\<close> and \<open>name\<close>.\<close>

type_synonym LogUser = "string \<times> string \<times> string"

definition AuditLogService_new :: tenant_context where
  "AuditLogService_new = \<lparr>tenantId = None\<rparr>"

definition log :: "tenant_context \<Rightarrow> LogParams \<Rightarrow> int \<Rightarrow> AuditDb \<Rightarrow> (error + unit) \<times> AuditDb" where
  \<comment> \<open>\<open>getCollectionRef\<close> throws before \<open>addDoc\<close> is called\<close>
  "log s params now adb =
     (case bound_tenant s of
        None \<Rightarrow> (Inl (Error ''Tenant ID must be set''), adb)
      | Some t \<Rightarrow>
          (let logData =
                 \<lparr>AuditLog.tenant_id = t,
                  organization_id = p_organizationId params,
                  log_action = p_action params,
                  log_module = p_module params,
                  entity_type = p_entityType params,
                  entity_id = p_entityId params,
                  entity_name = p_entityName params,
                  AuditLog.description = p_description params,
                  AuditLog.changes = p_changes params,
                  user_id = p_userId params,
                  user_email = p_userEmail params,
                  user_name = p_userName params,
                  ip_address = p_ipAddress params,
                  user_agent = p_userAgent params,
                  AuditLog.created_at = now\<rparr>
           in (Inr (), adb(t := setDoc (adb t) (autoId (adb t)) logData))))"

fun logCreate ::
  "tenant_context \<Rightarrow> string \<Rightarrow> string \<Rightarrow> string \<Rightarrow> string \<Rightarrow> LogUser \<Rightarrow> string \<Rightarrow> int \<Rightarrow>
   AuditDb \<Rightarrow> (error + unit) \<times> AuditDb" where
  "logCreate s moduleName entityType entityId entityName (uid, email, name) organizationId now adb =
     log s
       \<lparr>p_action = ''create'', p_module = moduleName, p_entityType = entityType, p_entityId = entityId,
        p_entityName = Some entityName,
        p_description = ''Created '' @ entityType @ '': '' @ entityName,
        p_changes = None, p_userId = uid, p_userEmail = email, p_userName = name,
        p_organizationId = organizationId, p_ipAddress = None, p_userAgent = None\<rparr>
       now adb"

fun join :: "string \<Rightarrow> string list \<Rightarrow> string" where
  "join sep [] = []"
| "join sep [x] = x"
| "join sep (x # y # ys) = x @ sep @ join sep (y # ys)"

fun logUpdate ::
  "tenant_context \<Rightarrow> string \<Rightarrow> string \<Rightarrow> string \<Rightarrow> string \<Rightarrow> Change list \<Rightarrow> LogUser \<Rightarrow> string \<Rightarrow>
   int \<Rightarrow> AuditDb \<Rightarrow> (error + unit) \<times> AuditDb" where
  "logUpdate s moduleName entityType entityId entityName changeList (uid, email, name)
     organizationId now adb =
     (let changedFields = join '', '' (map change_field changeList)
      in log s
           \<lparr>p_action = ''update'', p_module = moduleName, p_entityType = entityType,
            p_entityId = entityId, p_entityName = Some entityName,
            p_description =
              ''Updated '' @ entityType @ '': '' @ entityName @ '' (fields: '' @ changedFields @ '')'',
            p_changes = Some changeList, p_userId = uid, p_userEmail = email, p_userName = name,
            p_organizationId = organizationId, p_ipAddress = None, p_userAgent = None\<rparr>
           now adb)"

fun logDelete ::
  "tenant_context \<Rightarrow> string \<Rightarrow> string \<Rightarrow> string \<Rightarrow> string \<Rightarrow> LogUser \<Rightarrow> string \<Rightarrow> int \<Rightarrow>
   AuditDb \<Rightarrow> (error + unit) \<times> AuditDb" where
  "logDelete s moduleName entityType entityId entityName (uid, email, name) organizationId now adb =
     log s
       \<lparr>p_action = ''delete'', p_module = moduleName, p_entityType = entityType, p_entityId = entityId,
        p_entityName = Some entityName,
        p_description = ''Deleted '' @ entityType @ '': '' @ entityName,
        p_changes = None, p_userId = uid, p_userEmail = email, p_userName = name,
        p_organizationId = organizationId, p_ipAddress = None, p_userAgent = None\<rparr>
       now adb"

fun logAssign ::
  "tenant_context \<Rightarrow> string \<Rightarrow> string \<Rightarrow> string \<Rightarrow> string \<Rightarrow> LogUser \<Rightarrow> string \<Rightarrow> int \<Rightarrow>
   AuditDb \<Rightarrow> (error + unit) \<times> AuditDb" where
  "logAssign s entityType entityId entityName assignedTo (uid, email, name) organizationId now adb =
     log s
       \<lparr>p_action = ''assign'', p_module = ''assets'', p_entityType = entityType, p_entityId = entityId,
        p_entityName = Some entityName,
        p_description = ''Assigned '' @ entityType @ '': '' @ entityName @ '' to '' @ assignedTo,
        p_changes = None, p_userId = uid, p_userEmail = email, p_userName = name,
        p_organizationId = organizationId, p_ipAddress = None, p_userAgent = None\<rparr>
       now adb"

fun logTransfer ::
  "tenant_context \<Rightarrow> string \<Rightarrow> string \<Rightarrow> string \<Rightarrow> string \<Rightarrow> string \<Rightarrow> LogUser \<Rightarrow> string \<Rightarrow>
   int \<Rightarrow> AuditDb \<Rightarrow> (error + unit) \<times> AuditDb" where
  "logTransfer s entityType entityId entityName fromOffice toOffice (uid, email, name)
     organizationId now adb =
     log s
       \<lparr>p_action = ''transfer'', p_module = ''assets'', p_entityType = entityType,
        p_entityId = entityId, p_entityName = Some entityName,
        p_description =
          ''Transferred '' @ entityType @ '': '' @ entityName @ '' from '' @ fromOffice @
          '' to '' @ toOffice,
        changes =
          Some [\<lparr>change_field = ''office'', old_value = VStr fromOffice,
                 new_value = VStr toOffice\<rparr>],
        p_userId = uid, p_userEmail = email, p_userName = name,
        p_organizationId = organizationId, p_ipAddress = None, p_userAgent = None\<rparr>
       now adb"

fun logLogin ::
  "tenant_context \<Rightarrow> LogUser \<Rightarrow> string \<Rightarrow> string option \<Rightarrow> string option \<Rightarrow> int \<Rightarrow> AuditDb \<Rightarrow>
   (error + unit) \<times> AuditDb" where
  "logLogin s (uid, email, name) organizationId ipAddress userAgent now adb =
     log s
       \<lparr>p_action = ''login'', p_module = ''auth'', p_entityType = ''user'', p_entityId = uid,
        p_entityName = Some name, p_description = ''User logged in: '' @ email,
        p_changes = None, p_userId = uid, p_userEmail = email, p_userName = name,
        p_organizationId = organizationId, p_ipAddress = ipAddress, p_userAgent = userAgent\<rparr>
       now adb"

fun logLogout ::
  "tenant_context \<Rightarrow> LogUser \<Rightarrow> string \<Rightarrow> int \<Rightarrow> AuditDb \<Rightarrow> (error + unit) \<times> AuditDb" where
  "logLogout s (uid, email, name) organizationId now adb =
     log s
       \<lparr>p_action = ''logout'', p_module = ''auth'', p_entityType = ''user'', p_entityId = uid,
        p_entityName = Some name, p_description = ''User logged out: '' @ email,
        p_changes = None, p_userId = uid, p_userEmail = email, p_userName = name,
        p_organizationId = organizationId, p_ipAddress = None, p_userAgent = None\<rparr>
       now adb"

fun digits :: "nat \<Rightarrow> string" where
  "digits n = (if n < 10 then [char_of (48 + n)] else digits (n div 10) @ [char_of (48 + n mod 10)])"

definition number_to_string :: "int \<Rightarrow> string" where
  \<comment> \<open>the decimal numeral that a template literal gives a whole number\<close>
  "number_to_string n = (if n < 0 then CHR ''-'' # digits (nat (- n)) else digits (nat n))"

fun logExport ::
  "tenant_context \<Rightarrow> string \<Rightarrow> string \<Rightarrow> int \<Rightarrow> LogUser \<Rightarrow> string \<Rightarrow> int \<Rightarrow> AuditDb \<Rightarrow>
   (error + unit) \<times> AuditDb" where
  "logExport s moduleName exportType recordCount (uid, email, name) organizationId now adb =
     log s
       \<lparr>p_action = ''export'', p_module = moduleName, p_entityType = exportType, p_entityId = ''-'',
        p_entityName = None,
        p_description =
          ''Exported '' @ number_to_string recordCount @ '' '' @ exportType @
          '' records from '' @ moduleName,
        p_changes = None, p_userId = uid, p_userEmail = email, p_userName = name,
        p_organizationId = organizationId, p_ipAddress = None, p_userAgent = None\<rparr>
       now adb"

record GetLogsParams =
  q_page :: "nat option"
  q_page_size :: "nat option"
  q_module :: "string option"
  q_action :: "string option"
  q_userId :: "string option"
  q_entityType :: "string option"
  q_startDate :: "int option"
  q_endDate :: "int option"

definition optional_string :: "string \<Rightarrow> string option \<Rightarrow> fields" where
  "optional_string name v = (case v of None \<Rightarrow> Map.empty | Some x \<Rightarrow> [name \<mapsto> VStr x])"

definition AuditLog_data :: "AuditLog \<Rightarrow> fields" where
  \<comment> \<open>the fields of an audit log document, as a query reads them; the array \<open>changes\<close>
      is not a value that the filters of the service compare\<close>
  "AuditLog_data d =
     [''tenant_id'' \<mapsto> VStr (AuditLog.tenant_id d),
      ''organization_id'' \<mapsto> VStr (organization_id d),
      ''action'' \<mapsto> VStr (log_action d),
      ''module'' \<mapsto> VStr (log_module d),
      ''entity_type'' \<mapsto> VStr (entity_type d),
      ''entity_id'' \<mapsto> VStr (entity_id d),
      ''description'' \<mapsto> VStr (AuditLog.description d),
      ''user_id'' \<mapsto> VStr (user_id d),
      ''user_email'' \<mapsto> VStr (user_email d),
      ''user_name'' \<mapsto> VStr (user_name d),
      ''created_at'' \<mapsto> VTime (AuditLog.created_at d)] ++
     optional_string ''entity_name'' (entity_name d) ++
     optional_string ''ip_address'' (ip_address d) ++
     optional_string ''user_agent'' (user_agent d)"

definition getLogs ::
  "tenant_context \<Rightarrow> GetLogsParams \<Rightarrow> AuditDb \<Rightarrow> error + AuditLog doc PaginatedResponse" where
  "getLogs s params adb =
     (let constraints =
            (if truthy (q_module params)
             then [Where ''module'' (EqualTo (VStr (the (q_module params))))] else []) @
            (if truthy (q_action params)
             then [Where ''action'' (EqualTo (VStr (the (q_action params))))] else []) @
            (if truthy (q_userId params)
             then [Where ''user_id'' (EqualTo (VStr (the (q_userId params))))] else []) @
            (if truthy (q_entityType params)
             then [Where ''entity_type'' (EqualTo (VStr (the (q_entityType params))))] else []) @
            (case q_startDate params of
               Some startDate \<Rightarrow> [Where ''created_at'' (GreaterThanOrEqual (VTime startDate))]
             | None \<Rightarrow> []) @
            (case q_endDate params of
               Some endDate \<Rightarrow> [Where ''created_at'' (LessThanOrEqual (VTime endDate))]
             | None \<Rightarrow> []) @
            [OrderBy ''created_at'' Desc];
          pageSize = (case q_page_size params of None \<Rightarrow> 50 | Some n \<Rightarrow> if n = 0 then 50 else n);
          constraints = constraints @ [Limit (pageSize + 1)]
      in case bound_tenant s of
           None \<Rightarrow> Inl (Error ''Tenant ID must be set'')
         | Some t \<Rightarrow>
             (let docs = getDocs AuditLog_data (adb t) constraints
              in Inr \<lparr>resp_data = take pageSize docs, resp_total = 0,
                      resp_page = (case q_page params of None \<Rightarrow> 1
                                   | Some n \<Rightarrow> if n = 0 then 1 else n),
                      resp_page_size = pageSize,
                      resp_has_more = (length docs > pageSize)\<rparr>))"

definition getEntityLogs ::
  "tenant_context \<Rightarrow> string \<Rightarrow> string \<Rightarrow> AuditDb \<Rightarrow> error + AuditLog doc list" where
  "getEntityLogs s entityType entityId adb =
     (case bound_tenant s of
        None \<Rightarrow> Inl (Error ''Tenant ID must be set'')
      | Some t \<Rightarrow>
          Inr (getDocs AuditLog_data (adb t)
                 [Where ''entity_type'' (EqualTo (VStr entityType)),
                  Where ''entity_id'' (EqualTo (VStr entityId)),
                  OrderBy ''created_at'' Desc, Limit 100]))"

definition getUserActivity ::
  "tenant_context \<Rightarrow> string \<Rightarrow> int option \<Rightarrow> int \<Rightarrow> AuditDb \<Rightarrow> error + AuditLog doc list" where
  \<comment> \<open>time stamps count seconds; \<open>days\<close> defaults to 30\<close>
  "getUserActivity s userId days now adb =
     (let startDate = now - (case days of None \<Rightarrow> 30 | Some n \<Rightarrow> n) * 86400
      in case bound_tenant s of
           None \<Rightarrow> Inl (Error ''Tenant ID must be set'')
         | Some t \<Rightarrow>
             Inr (getDocs AuditLog_data (adb t)
                    [Where ''user_id'' (EqualTo (VStr userId)),
                     Where ''created_at'' (GreaterThanOrEqual (VTime startDate)),
                     OrderBy ''created_at'' Desc, Limit 200]))"

text \<open>
  The calls that the class \<open>AuditLogService\<close> offers, each with the instant at which it is
  made. A call takes the service object and the audit collections to their next state; the
  queries return their result and leave both as they are.
\<close>

datatype audit_call =
    SetTenant string
  | Log LogParams
  | LogCreate string string string string LogUser string
  | LogUpdate string string string string "Change list" LogUser string
  | LogDelete string string string string LogUser string
  | LogAssign string string string string LogUser string
  | LogTransfer string string string string string LogUser string
  | LogLogin LogUser string "string option" "string option"
  | LogLogout LogUser string
  | LogExport string string int LogUser string
  | GetLogs GetLogsParams
  | GetEntityLogs string string
  | GetUserActivity string "int option"

fun audit_step :: "tenant_context \<times> AuditDb \<Rightarrow> int \<times> audit_call \<Rightarrow> tenant_context \<times> AuditDb" where
  "audit_step (s, adb) (now, SetTenant t) = (setTenant s t, adb)"
| "audit_step (s, adb) (now, Log params) = (s, snd (log s params now adb))"
| "audit_step (s, adb) (now, LogCreate m et ei en u org) = (s, snd (logCreate s m et ei en u org now adb))"
| "audit_step (s, adb) (now, LogUpdate m et ei en cs u org) =
     (s, snd (logUpdate s m et ei en cs u org now adb))"
| "audit_step (s, adb) (now, LogDelete m et ei en u org) = (s, snd (logDelete s m et ei en u org now adb))"
| "audit_step (s, adb) (now, LogAssign et ei en a u org) = (s, snd (logAssign s et ei en a u org now adb))"
| "audit_step (s, adb) (now, LogTransfer et ei en f t u org) =
     (s, snd (logTransfer s et ei en f t u org now adb))"
| "audit_step (s, adb) (now, LogLogin u org ip ua) = (s, snd (logLogin s u org ip ua now adb))"
| "audit_step (s, adb) (now, LogLogout u org) = (s, snd (logLogout s u org now adb))"
| "audit_step (s, adb) (now, LogExport m et n u org) = (s, snd (logExport s m et n u org now adb))"
| "audit_step (s, adb) (now, GetLogs params) = (s, adb)"
| "audit_step (s, adb) (now, GetEntityLogs et ei) = (s, adb)"
| "audit_step (s, adb) (now, GetUserActivity u days) = (s, adb)"

definition audit_run ::
  "tenant_context \<times> AuditDb \<Rightarrow> (int \<times> audit_call) list \<Rightarrow> tenant_context \<times> AuditDb" where
  "audit_run st calls = foldl audit_step st calls"

section \<open>Notions used to state the properties\<close>

definition empty_store :: firestore where
  "empty_store = (\<lambda>p. [])"

definition most_recent_first :: "fields list \<Rightarrow> bool" where
  \<comment> \<open>every entity has a creation time stamp, and they descend along the list\<close>
  "most_recent_first es =
     (list_all (\<lambda>e. e ''created_at'' \<noteq> None) es \<and>
      sorted_wrt (\<lambda>a b. order_key (b ''created_at'') \<le> order_key (a ''created_at'')) es)"

definition effective :: "BatchOperation \<Rightarrow> bool" where
  \<comment> \<open>the operations that \<open>batchWrite\<close> does not skip\<close>
  "effective op =
     (op_kind op = op_create \<and> op_data op \<noteq> None \<and> truthy (op_userId op) \<or>
      op_kind op = op_update \<and> truthy (op_id op) \<and> op_data op \<noteq> None \<and> truthy (op_userId op) \<or>
      op_kind op = op_delete \<and> truthy (op_id op))"

text \<open>Small stores on which the theorems are tried.\<close>

definition example_collections :: COLLECTIONS where
  "example_collections = \<lparr>ASSETS = ''assets'', ASSET_EVENTS = ''events''\<rparr>"

definition example_assets :: firestore where
  "example_assets =
     empty_store([''tenants'', ''t1'', ''assets''] :=
       [(''a1'', [''office_id'' \<mapsto> VStr ''o1'', ''assigned_to'' \<mapsto> VStr ''u7'',
                  ''status'' \<mapsto> VStr ''in_use'', ''created_at'' \<mapsto> VTime 1]),
        (''a2'', [''office_id'' \<mapsto> VStr ''o1'', ''status'' \<mapsto> VStr ''available'',
                  ''created_at'' \<mapsto> VTime 2])])"

definition example_stock :: StockDb where
  "example_stock =
     \<lparr>office_stock = (\<lambda>t. [])(''t1'' :=
        [(''s1'', \<lparr>OfficeStock.tenant_id = ''t1'', OfficeStock.office_id = ''o1'',
                   OfficeStock.consumable_id = ''c1'', OfficeStock.quantity = 3,
                   last_restocked = None, last_issued = None, OfficeStock.updated_at = 0\<rparr>)]),
      stock_transactions = (\<lambda>t. [])\<rparr>"

definition example_audit :: AuditDb where
  "example_audit = (\<lambda>t. [])"



section \<open>Verification of the permission system\<close>

subsection \<open>Facts about the matrix\<close>

lemma tables_distinct: "\<forall>(r, t) \<in> set ROLE_PERMISSIONS. distinct (map fst t)"
  by (simp add: ROLE_PERMISSIONS_def)

lemma tables_keys: "\<forall>(r, t) \<in> set ROLE_PERMISSIONS. map fst t = MODULES"
  by (simp add: ROLE_PERMISSIONS_def MODULES_def)

lemma tables_actions:
  "\<forall>(r, t) \<in> set ROLE_PERMISSIONS. \<forall>(m, acts) \<in> set t. set acts \<subseteq> set ALL_ACTIONS"
  by (simp add: ROLE_PERMISSIONS_def ALL_ACTIONS_def READ_ONLY_def READ_CREATE_UPDATE_def)

lemma own_table_distinct: "map_of ROLE_PERMISSIONS role = Some t \<Longrightarrow> distinct (map fst t)"
  using tables_distinct by (auto dest: map_of_SomeD)

lemma own_table_actions:
  "map_of ROLE_PERMISSIONS role = Some t \<Longrightarrow> map_of t m = Some acts \<Longrightarrow>
   set acts \<subseteq> set ALL_ACTIONS"
  using tables_actions by (fastforce dest: map_of_SomeD)

lemma own_table_modules: "map_of ROLE_PERMISSIONS role = Some t \<Longrightarrow> map fst t = MODULES"
  using tables_keys by (auto dest: map_of_SomeD)

subsection \<open>The three kinds of role\<close>

lemma get_role_own:
  "role \<notin> set object_prototype_keys \<Longrightarrow>
   get_role role = (case map_of ROLE_PERMISSIONS role of Some t \<Rightarrow> OwnRole t | None \<Rightarrow> Missing)"
  by (auto simp: get_role_def object_prototype_keys_def map_of_eq_None_iff
           split: option.splits dest!: map_of_SomeD intro: rev_image_eqI)

lemma get_role_OwnRole: "get_role role = OwnRole t \<longleftrightarrow> map_of ROLE_PERMISSIONS role = Some t"
  by (auto simp: get_role_def split: option.splits)

lemma get_role_Missing: "get_role role = Missing \<Longrightarrow> hasPermission role m a = Inr False"
  by (simp add: hasPermission_def)

lemma get_role_Inherited:
  "get_role role = Inherited b \<Longrightarrow>
     b = ObjectConstructor \<or> b = ObjectPrototype \<or>
     (\<exists>k n. b = BuiltinMethod k n \<and> (k, n) \<in> set object_prototype_methods)"
  by (auto simp: get_role_def split: option.splits if_splits dest: map_of_SomeD)

lemma object_prototype_get_absent:
  "module \<notin> set object_prototype_keys \<Longrightarrow> object_prototype_get p module = JSUndefined"
  by (auto simp: object_prototype_get_def object_prototype_keys_def)

lemma object_prototype_get_cases:
  "object_prototype_get p m = p \<or> object_prototype_get p m = JSObject \<or>
   object_prototype_get p m = JSUndefined"
  by (simp add: object_prototype_get_def)

lemma hasPermission_own:
  "get_role role = OwnRole t \<Longrightarrow>
   hasPermission role m a =
     (case map_of t m of
        Some acts \<Rightarrow> Inr (a \<in> set acts)
      | None \<Rightarrow> if m \<in> set object_prototype_keys then Inl TypeError else Inr False)"
  by (auto simp: hasPermission_def object_prototype_get_def object_prototype_keys_def
           split: option.splits)

lemma function_prototype_never_grants:
  "function_prototype_get m = Inr v \<Longrightarrow> \<not> falsy v \<Longrightarrow> js_includes v a = Inl TypeError"
  using object_prototype_get_cases [of JSObject m]
  by (auto simp: function_prototype_get_def split: if_splits)

text \<open>
  A role that names a built-in can only be granted an action that is a substring of the
  name of that built-in.
\<close>

lemma builtin_role_never_grants:
  assumes "get_role role = Inherited b"
    and "\<not> sublist a ''Object''"
    and "\<forall>(k, n) \<in> set object_prototype_methods. \<not> sublist a k"
  shows "hasPermission role m a \<noteq> Inr True"
proof -
  from get_role_Inherited [OF assms(1)] consider
    "b = ObjectConstructor" | "b = ObjectPrototype"
    | k n where "b = BuiltinMethod k n" "(k, n) \<in> set object_prototype_methods" by blast
  then show ?thesis
  proof cases
    case 1
    with assms(1,2) show ?thesis
      using function_prototype_never_grants [of m _ a]
      by (auto simp: hasPermission_def split: sum.splits)
  next
    case 2
    with assms(1) show ?thesis
      using object_prototype_get_cases [of JSNull m]
      by (auto simp: hasPermission_def)
  next
    case 3
    with assms(1,3) show ?thesis
      using function_prototype_never_grants [of m _ a]
      by (auto simp: hasPermission_def split: sum.splits)
  qed
qed

lemma names_without_read: "\<forall>(k, n) \<in> set object_prototype_methods. \<not> sublist ''read'' k"
  by code_simp

lemma names_without_ungranted:
  "\<forall>a \<in> set [''assign'', ''transfer'', ''approve''].
     \<not> sublist a ''Object'' \<and> (\<forall>(k, n) \<in> set object_prototype_methods. \<not> sublist a k)"
  by code_simp

subsection \<open>hasPermission\<close>

text \<open>
  Claim C1, as the specification states it: for every role, module and action value,
  \<open>hasPermission\<close> returns true iff the matrix has an entry for the role and the module
  whose action list contains the action, and it never throws on an unknown role or module.

  The statement fails for a module that names a member inherited from \<open>Object.prototype\<close>:
  \<open>rolePermissions['constructor']\<close> is the function \<open>Object\<close>, which is truthy and has no
  method \<open>includes\<close>, so the call throws a \<open>TypeError\<close>.
\<close>

theorem hasPermission_inherited_module_throws:
  "hasPermission ''SUPER_ADMIN'' ''constructor'' ''read'' = Inl TypeError"
  by (simp add: hasPermission_def get_role_def ROLE_PERMISSIONS_def object_prototype_get_def
        object_prototype_keys_def)

text \<open>
  Claim C1, amended: for every role and module value that is not the name of a member
  inherited from \<open>Object.prototype\<close> (in particular for every value of \<open>UserRole\<close> and
  \<open>ModuleValue\<close>, and for every other string that is not such a name), \<open>hasPermission\<close>
  returns, without throwing, true iff the matrix has an entry for the role and the module
  whose action list contains the action, and false otherwise.
\<close>

theorem hasPermission_iff_matrix_entry:
  assumes "role \<notin> set object_prototype_keys" and "module \<notin> set object_prototype_keys"
  shows "hasPermission role module action =
           Inr (\<exists>rolePermissions modulePermissions.
                  map_of ROLE_PERMISSIONS role = Some rolePermissions \<and>
                  map_of rolePermissions module = Some modulePermissions \<and>
                  action \<in> set modulePermissions)"
  using assms
  by (auto simp: hasPermission_def get_role_own object_prototype_get_absent split: option.splits)

theorem hasPermission_iff_matrix_entry_witness:
  "''IT_TECHNICIAN'' \<notin> set object_prototype_keys \<and> ''assets'' \<notin> set object_prototype_keys \<and>
   hasPermission ''IT_TECHNICIAN'' ''assets'' ''update'' = Inr True \<and>
   ''AUDITOR'' \<notin> set object_prototype_keys \<and>
   hasPermission ''AUDITOR'' ''assets'' ''read'' = Inr False"
proof -
  have r: "''IT_TECHNICIAN'' \<notin> set object_prototype_keys"
    and m: "''assets'' \<notin> set object_prototype_keys"
    and u: "''AUDITOR'' \<notin> set object_prototype_keys"
    by (simp_all add: object_prototype_keys_def object_prototype_methods_def)
  show ?thesis
    using r m u hasPermission_iff_matrix_entry [OF r m, of "''update''"]
      hasPermission_iff_matrix_entry [OF u m, of "''read''"]
    by (simp add: ROLE_PERMISSIONS_def READ_CREATE_UPDATE_def)
qed

lemma declared_values_not_inherited:
  "set (map fst ROLE_PERMISSIONS) \<inter> set object_prototype_keys = {} \<and>
   set MODULES \<inter> set object_prototype_keys = {}"
  by (simp add: ROLE_PERMISSIONS_def MODULES_def object_prototype_keys_def
        object_prototype_methods_def)

text \<open>
  Claim C10: for every role and every module, \<open>hasPermission\<close> returns false for the
  actions \<open>assign\<close>, \<open>transfer\<close> and \<open>approve\<close>: no entry of the matrix grants them, so the
  check denies them even to \<open>SUPER_ADMIN\<close>. The result is false for every role and module
  of the matrix, and also for every other value that does not name an inherited member;
  for no value at all is it true.
\<close>

theorem ungranted_actions_denied:
  assumes "a \<in> {''assign'', ''transfer'', ''approve''}"
  shows "(role \<in> set (map fst ROLE_PERMISSIONS) \<and> module \<in> set MODULES \<longrightarrow>
            hasPermission role module a = Inr False) \<and>
         (role \<notin> set object_prototype_keys \<and> module \<notin> set object_prototype_keys \<longrightarrow>
            hasPermission role module a = Inr False) \<and>
         hasPermission role module a \<noteq> Inr True"
proof -
  have a: "a \<notin> set ALL_ACTIONS"
    using assms by (auto simp: ALL_ACTIONS_def)
  have own: "hasPermission role module a =
               (case map_of t module of
                  Some acts \<Rightarrow> Inr False
                | None \<Rightarrow> if module \<in> set object_prototype_keys then Inl TypeError else Inr False)"
    if "get_role role = OwnRole t" for t
    using that a own_table_actions [of role t module]
    by (auto simp: hasPermission_own get_role_OwnRole split: option.splits)
  have never: "hasPermission role module a \<noteq> Inr True"
  proof (cases "get_role role")
    case (OwnRole t)
    then show ?thesis by (simp add: own split: option.splits)
  next
    case (Inherited b)
    then show ?thesis
      using names_without_ungranted assms by (intro builtin_role_never_grants) auto
  next
    case Missing
    then show ?thesis by (simp add: get_role_Missing)
  qed
  have ordinary: "hasPermission role module a = Inr False"
    if "role \<notin> set object_prototype_keys" "module \<notin> set object_prototype_keys"
  proof (cases "map_of ROLE_PERMISSIONS role")
    case None
    with that(1) show ?thesis
      by (simp add: get_role_own get_role_Missing)
  next
    case (Some t)
    with that(2) show ?thesis
      by (simp add: own get_role_OwnRole split: option.splits)
  qed
  have declared: "hasPermission role module a = Inr False"
    if "role \<in> set (map fst ROLE_PERMISSIONS)" "module \<in> set MODULES"
    using that declared_values_not_inherited by (intro ordinary) blast+
  from never ordinary declared show ?thesis by blast
qed

theorem ungranted_actions_denied_witness:
  "''assign'' \<in> {''assign'', ''transfer'', ''approve''} \<and>
   ''SUPER_ADMIN'' \<in> set (map fst ROLE_PERMISSIONS) \<and> ''assets'' \<in> set MODULES \<and>
   hasPermission ''SUPER_ADMIN'' ''assets'' ''assign'' = Inr False"
proof -
  have a: "''assign'' \<in> {''assign'', ''transfer'', ''approve''}" by simp
  have r: "''SUPER_ADMIN'' \<in> set (map fst ROLE_PERMISSIONS)"
    by (simp add: ROLE_PERMISSIONS_def)
  have m: "''assets'' \<in> set MODULES"
    by (simp add: MODULES_def)
  show ?thesis
    using a r m ungranted_actions_denied [OF a, of "''SUPER_ADMIN''" "''assets''"] by blast
qed

subsection \<open>canAccessModule and getAccessibleModules\<close>

text \<open>
  Claim C9: for every role and every module, \<open>canAccessModule(role, module)\<close> equals
  \<open>hasPermission(role, module, 'read')\<close>, and \<open>getAccessibleModules(role)\<close> contains exactly
  the modules for which \<open>canAccessModule\<close> is true.
\<close>

theorem accessible_modules_are_readable:
  "canAccessModule role module = hasPermission role module ''read'' \<and>
   set (getAccessibleModules role) = {m. canAccessModule role m = Inr True}"
proof
  show "canAccessModule role module = hasPermission role module ''read''"
    by (simp add: canAccessModule_def)
  show "set (getAccessibleModules role) = {m. canAccessModule role m = Inr True}"
  proof (cases "get_role role")
    case (OwnRole t)
    then have d: "distinct (map fst t)"
      by (simp add: get_role_OwnRole own_table_distinct)
    have "canAccessModule role m = Inr True \<longleftrightarrow>
            (\<exists>acts. (m, acts) \<in> set t \<and> ''read'' \<in> set acts)" for m
      by (auto simp: canAccessModule_def hasPermission_own [OF OwnRole]
            simp flip: map_of_eq_Some_iff [OF d] split: option.splits)
    then show ?thesis
      using OwnRole by (force simp: getAccessibleModules_def)
  next
    case (Inherited b)
    have "\<not> sublist ''read'' ''Object''" by code_simp
    then have "canAccessModule role m \<noteq> Inr True" for m
      unfolding canAccessModule_def
      using builtin_role_never_grants [OF Inherited _ names_without_read] by blast
    then show ?thesis
      using Inherited by (simp add: getAccessibleModules_def)
  next
    case Missing
    then show ?thesis
      by (simp add: getAccessibleModules_def canAccessModule_def get_role_Missing)
  qed
qed

theorem accessible_modules_are_readable_witness:
  "canAccessModule ''IT_TECHNICIAN'' ''settings'' = Inr False \<and>
   ''settings'' \<notin> set (getAccessibleModules ''IT_TECHNICIAN'') \<and>
   ''assets'' \<in> set (getAccessibleModules ''IT_TECHNICIAN'')"
proof -
  have 1: "hasPermission ''IT_TECHNICIAN'' ''settings'' ''read'' = Inr False"
    by (simp add: hasPermission_def get_role_def ROLE_PERMISSIONS_def)
  have 2: "hasPermission ''IT_TECHNICIAN'' ''assets'' ''read'' = Inr True"
    by (simp add: hasPermission_def get_role_def ROLE_PERMISSIONS_def READ_CREATE_UPDATE_def)
  show ?thesis
    using 1 2 accessible_modules_are_readable [of "''IT_TECHNICIAN''" "''settings''"]
      accessible_modules_are_readable [of "''IT_TECHNICIAN''" "''assets''"]
    by auto
qed

subsection \<open>getAssignableRoles\<close>

lemma indexOf_absent: "x \<notin> set xs \<Longrightarrow> indexOf xs x = - 1"
  by (induction xs) auto

lemma getAssignableRoles_in_hierarchy:
  "\<forall>r \<in> set roleHierarchy. getAssignableRoles r =
     (if r = ''SUPER_ADMIN'' \<or> r = ''TENANT_ADMIN''
      then filter (\<lambda>x. x \<noteq> ''SUPER_ADMIN'') roleHierarchy
      else filter (\<lambda>x. indexOf roleHierarchy r < indexOf roleHierarchy x) roleHierarchy)"
  by code_simp

text \<open>
  Claim C4: \<open>getAssignableRoles(currentRole)\<close> returns exactly the roles strictly below
  \<open>currentRole\<close> in the hierarchy SUPER_ADMIN > TENANT_ADMIN > ORG_ADMIN > IT_ADMIN >
  OFFICE_ADMIN > IT_TECHNICIAN > FINANCE > MANAGEMENT (the order of \<open>roleHierarchy\<close>), except
  that SUPER_ADMIN and TENANT_ADMIN each receive every role except SUPER_ADMIN; for a role
  that is not in the hierarchy it returns the empty list.
\<close>

theorem getAssignableRoles_below:
  "roleHierarchy =
     [''SUPER_ADMIN'', ''TENANT_ADMIN'', ''ORG_ADMIN'', ''IT_ADMIN'', ''OFFICE_ADMIN'',
      ''IT_TECHNICIAN'', ''FINANCE'', ''MANAGEMENT''] \<and>
   getAssignableRoles r =
     (if r \<notin> set roleHierarchy then []
      else if r = ''SUPER_ADMIN'' \<or> r = ''TENANT_ADMIN''
      then filter (\<lambda>x. x \<noteq> ''SUPER_ADMIN'') roleHierarchy
      else filter (\<lambda>x. indexOf roleHierarchy r < indexOf roleHierarchy x) roleHierarchy)"
proof
  show "roleHierarchy =
     [''SUPER_ADMIN'', ''TENANT_ADMIN'', ''ORG_ADMIN'', ''IT_ADMIN'', ''OFFICE_ADMIN'',
      ''IT_TECHNICIAN'', ''FINANCE'', ''MANAGEMENT'']"
    by (simp add: roleHierarchy_def)
  show "getAssignableRoles r =
     (if r \<notin> set roleHierarchy then []
      else if r = ''SUPER_ADMIN'' \<or> r = ''TENANT_ADMIN''
      then filter (\<lambda>x. x \<noteq> ''SUPER_ADMIN'') roleHierarchy
      else filter (\<lambda>x. indexOf roleHierarchy r < indexOf roleHierarchy x) roleHierarchy)"
  proof (cases "r \<in> set roleHierarchy")
    case True
    with getAssignableRoles_in_hierarchy show ?thesis by simp
  next
    case False
    then show ?thesis by (simp add: getAssignableRoles_def indexOf_absent)
  qed
qed

theorem getAssignableRoles_below_witness:
  "roleHierarchy =
     [''SUPER_ADMIN'', ''TENANT_ADMIN'', ''ORG_ADMIN'', ''IT_ADMIN'', ''OFFICE_ADMIN'',
      ''IT_TECHNICIAN'', ''FINANCE'', ''MANAGEMENT''] \<and>
   getAssignableRoles ''IT_ADMIN'' =
     filter (\<lambda>x. indexOf roleHierarchy ''IT_ADMIN'' < indexOf roleHierarchy x) roleHierarchy \<and>
   getAssignableRoles ''IT_ADMIN'' =
     [''OFFICE_ADMIN'', ''IT_TECHNICIAN'', ''FINANCE'', ''MANAGEMENT''] \<and>
   getAssignableRoles ''MANAGEMENT'' = [] \<and>
   getAssignableRoles ''unknown_role'' = [] \<and>
   getAssignableRoles ''TENANT_ADMIN'' =
     [''TENANT_ADMIN'', ''ORG_ADMIN'', ''IT_ADMIN'', ''OFFICE_ADMIN'', ''IT_TECHNICIAN'', ''FINANCE'',
      ''MANAGEMENT'']"
proof -
  have member: "''IT_ADMIN'' \<in> set roleHierarchy"
    by (simp add: roleHierarchy_def)
  have below: "getAssignableRoles ''IT_ADMIN'' =
     filter (\<lambda>x. indexOf roleHierarchy ''IT_ADMIN'' < indexOf roleHierarchy x) roleHierarchy"
    using getAssignableRoles_below [of "''IT_ADMIN''"] member by simp
  have hierarchy: "roleHierarchy =
     [''SUPER_ADMIN'', ''TENANT_ADMIN'', ''ORG_ADMIN'', ''IT_ADMIN'', ''OFFICE_ADMIN'',
      ''IT_TECHNICIAN'', ''FINANCE'', ''MANAGEMENT'']"
    using getAssignableRoles_below [of "''IT_ADMIN''"] by (rule conjunct1)
  have evaluated:
    "getAssignableRoles ''IT_ADMIN'' =
       [''OFFICE_ADMIN'', ''IT_TECHNICIAN'', ''FINANCE'', ''MANAGEMENT''] \<and>
     getAssignableRoles ''MANAGEMENT'' = [] \<and>
     getAssignableRoles ''unknown_role'' = [] \<and>
     getAssignableRoles ''TENANT_ADMIN'' =
       [''TENANT_ADMIN'', ''ORG_ADMIN'', ''IT_ADMIN'', ''OFFICE_ADMIN'', ''IT_TECHNICIAN'',
        ''FINANCE'', ''MANAGEMENT'']"
    by code_simp
  from hierarchy below evaluated show ?thesis by (intro conjI) (erule conjunct1 | assumption | simp)+
qed

section \<open>Verification of the document store and the repository base\<close>

subsection \<open>Documents and identifiers\<close>

lemma autoId_longer: "(i, d) \<in> set c \<Longrightarrow> length i < length (autoId c)"
  by (induction c) (auto simp: autoId_def)

lemma autoId_fresh: "autoId c \<notin> fst ` set c"
  using autoId_longer [of "autoId c" _ c] by auto

lemma setDoc_autoId: "setDoc c (autoId c) d = c @ [(autoId c, d)]"
  using autoId_fresh [of c] by (simp add: setDoc_def)

lemma getDoc_changeDoc:
  "getDoc (changeDoc c i f) j = (if j = i then map_option f (getDoc c i) else getDoc c j)"
  by (induction c) (auto simp: getDoc_def changeDoc_def)

lemma getDoc_in: "getDoc c i = Some d \<Longrightarrow> i \<in> fst ` set c"
  by (auto simp: getDoc_def dest!: map_of_SomeD intro: rev_image_eqI)

lemma updateDoc_result:
  "updateDoc db p i d =
     (if i \<in> fst ` set (db p) then (Inr (), db(p := changeDoc (db p) i (\<lambda>old. old ++ d)))
      else (Inl (FirestoreError ''not-found''), db))"
  by (simp add: updateDoc_def commit_def batch_update_def writeBatch_def batch_fail_def)

subsection \<open>Queries\<close>

lemma order_constraints_append:
  "order_constraints (cs @ ds) = order_constraints cs @ order_constraints ds"
  by (induction cs rule: order_constraints.induct) auto

lemma sort_docs_desc: "sorted_wrt (\<lambda>a b. k b \<le> k a) (sort_docs k Desc ds)"
proof -
  have "sorted (map k (sort_key k (rev ds)))" by simp
  then have "sorted_wrt (\<lambda>a b. k a \<le> k b) (sort_key k (rev ds))"
    by (simp add: sorted_map)
  then show ?thesis
    by (simp add: sorted_wrt_rev)
qed

lemma set_sort_docs [simp]: "set (sort_docs k dir ds) = set ds"
  by (cases dir) simp_all

lemma set_ordered_docs: "set (ordered_docs data c cs) = set (matching_docs data c cs)"
proof -
  have "set (foldr (\<lambda>(f, dir) ds. sort_docs (\<lambda>doc. order_key (field_value data doc f)) dir ds)
               os ds) = set ds"
    for os :: "(string \<times> direction) list" and ds :: "'a doc list"
    by (induction os) (auto simp: case_prod_unfold simp del: sort_docs.simps)
  then show ?thesis
    by (simp add: ordered_docs_def)
qed

lemma set_getDocs: "set (getDocs data c cs) \<subseteq> set (matching_docs data c cs)"
  by (auto simp: getDocs_def set_ordered_docs [symmetric] split: option.splits dest: in_set_takeD)

text \<open>
  A query whose first \<open>orderBy\<close> is descending returns its documents in that order,
  whatever its filters are, and each of them has the field.
\<close>

lemma getDocs_first_desc:
  assumes "order_constraints cs = (f, Desc) # os"
  shows "sorted_wrt (\<lambda>a b. order_key (field_value data b f) \<le> order_key (field_value data a f))
           (getDocs data c cs) \<and>
         list_all (\<lambda>doc. field_value data doc f \<noteq> None) (getDocs data c cs)"
proof -
  obtain rest where "normalized_order_by cs = (f, Desc) # rest"
    using assms by (simp add: normalized_order_by_def Let_def)
  then have "ordered_docs data c cs =
          sort_docs (\<lambda>doc. order_key (field_value data doc f)) Desc
            (foldr (\<lambda>(f, dir) ds. sort_docs (\<lambda>doc. order_key (field_value data doc f)) dir ds)
               rest (matching_docs data c cs))"
    by (simp add: ordered_docs_def del: sort_docs.simps)
  then have "sorted_wrt (\<lambda>a b. order_key (field_value data b f) \<le> order_key (field_value data a f))
               (ordered_docs data c cs)"
    using sort_docs_desc [of "\<lambda>doc. order_key (field_value data doc f)"] by simp
  then have s: "sorted_wrt (\<lambda>a b. order_key (field_value data b f) \<le> order_key (field_value data a f))
                  (getDocs data c cs)"
    by (simp add: getDocs_def sorted_wrt_take split: option.splits)
  have "field_value data doc f \<noteq> None" if "doc \<in> set (matching_docs data c cs)" for doc
    using that assms by (auto simp: matching_docs_def)
  with set_getDocs [of data c cs]
  have "list_all (\<lambda>doc. field_value data doc f \<noteq> None) (getDocs data c cs)"
    by (auto simp: list_all_iff)
  with s show ?thesis by simp
qed

text \<open>
  A query with a range filter and no \<open>orderBy\<close> is ordered by the filtered field: the
  document \<open>b\<close>, with the smaller value, comes before the document \<open>a\<close>.
\<close>

lemma getDocs_range_filter_order:
  "map fst (getDocs (\<lambda>d. d)
     [(''a'', [''created_at'' \<mapsto> VTime 9]), (''b'', [''created_at'' \<mapsto> VTime 1])]
     [Where ''created_at'' (GreaterThanOrEqual (VTime 0))]) = [''b'', ''a'']"
  by code_simp

lemma entity_created_at [simp]: "entity d ''created_at'' = snd d ''created_at''"
  by (cases d) (simp add: entity_def map_add_def split: option.splits)

subsection \<open>Operations on a service without a tenant\<close>

lemma unbound_refs:
  assumes "bound_tenant s = None"
  shows "getCollectionRef s = Inl (Error ''Tenant ID must be set before performing operations'')"
    and "getDocRef s i = Inl (Error ''Tenant ID must be set before performing operations'')"
  using assms by (simp_all add: getCollectionRef_def getDocRef_def)

text \<open>
  Five of the six operations reach \<open>getCollectionRef\<close> before they touch the store: they
  fail with the configuration error and leave the store as it is.
\<close>

lemma unbound_operations_fail:
  assumes "bound_tenant s = None"
  shows "getById s i db = Inl (Error ''Tenant ID must be set before performing operations'')"
    and "getAll s constraints db =
           Inl (Error ''Tenant ID must be set before performing operations'')"
    and "create s data userId now db =
           (Inl (Error ''Tenant ID must be set before performing operations''), db)"
    and "update s i data userId now db =
           (Inl (Error ''Tenant ID must be set before performing operations''), db)"
    and "delete s i db =
           (Inl (Error ''Tenant ID must be set before performing operations''), db)"
  using unbound_refs [OF assms]
  by (simp_all add: getById_def getAll_def create_def update_def delete_def)

text \<open>
  \<open>batchWrite\<close> reaches \<open>getCollectionRef\<close> only inside its loop, for an operation that it
  does not skip: with no such operation it commits an empty batch.
\<close>

lemma unbound_batchWrite_loop:
  assumes "bound_tenant s = None"
  shows "batchWrite_loop s now operations batch =
           (if list_ex effective operations
            then Inl (Error ''Tenant ID must be set before performing operations'')
            else Inr batch)"
  using unbound_refs [OF assms]
  by (induction operations) (auto simp: effective_def)

lemma unbound_batchWrite:
  assumes "bound_tenant s = None"
  shows "batchWrite s operations now db =
           (if list_ex effective operations
            then Inl (Error ''Tenant ID must be set before performing operations'')
            else Inr (), db)"
  by (simp add: batchWrite_def unbound_batchWrite_loop [OF assms] commit_def writeBatch_def)

text \<open>
  Claim C2 says that every operation of the repository base, \<open>batchWrite\<close> with an empty
  list included, fails with the configuration error on an instance on which \<open>setTenant\<close>
  was never called. On a new instance \<open>batchWrite([])\<close> returns normally.
\<close>

theorem batchWrite_empty_without_tenant:
  "batchWrite (BaseService_new ''assets'') [] 0 empty_store = (Inr (), empty_store)"
  by (simp add: batchWrite_def commit_def writeBatch_def)

subsection \<open>Default ordering\<close>

text \<open>
  Claim C7, as the specification states it: every collection query issued with no sort is
  returned most recently created first, by \<open>getAll\<close> as well as by \<open>getPaginated\<close>.
  \<open>getAll\<close> passes the caller's constraints on as they are; called with none, it gets the
  documents in the order of their identifiers: here the older document comes first.
\<close>

theorem getAll_without_sort_oldest_first:
  "map_sum id (map (\<lambda>e. e ''created_at''))
     (getAll (setTenant (BaseService_new ''assets'') ''t1'') []
        (empty_store([''tenants'', ''t1'', ''assets''] :=
           [(''a'', [''created_at'' \<mapsto> VTime 1]), (''b'', [''created_at'' \<mapsto> VTime 2])])))
   = Inr [Some (VTime 1), Some (VTime 2)]"
  by code_simp

text \<open>
  Claim C7, amended: \<open>getPaginated\<close> called with no \<open>params.sort\<close> and with no sort among
  the additional constraints returns its page most recently created first. The default
  ordering is that of \<open>getPaginated\<close> alone.
\<close>

theorem default_ordering:
  assumes "param_sort params = None"
    and "order_constraints additionalConstraints = []"
    and "getPaginated s params additionalConstraints db = Inr r"
  shows "most_recent_first (resp_data r)"
proof -
  define n where "n = (case param_page_size params of None \<Rightarrow> 25 | Some n \<Rightarrow> n)"
  define cs where "cs = additionalConstraints @ [OrderBy ''created_at'' Desc] @ [Limit (n + 1)]"
  from assms obtain p where p: "getCollectionRef s = Inr p"
    and r: "resp_data r = map entity (take n (getDocs (\<lambda>d. d) (db p) cs))"
    by (auto simp: getPaginated_def Let_def n_def cs_def split: sum.splits)
  have "order_constraints cs = [(''created_at'', Desc)]"
    using assms(2) by (simp add: cs_def order_constraints_append)
  from getDocs_first_desc [OF this, of "\<lambda>d. d" "db p"]
  show "most_recent_first (resp_data r)"
    unfolding r most_recent_first_def
    by (auto simp: field_value_def sorted_wrt_map sorted_wrt_take list_all_iff dest: in_set_takeD)
qed

theorem default_ordering_witness:
  "param_sort \<lparr>param_page = None, param_page_size = None, param_sort = None\<rparr> = None \<and>
   order_constraints [] = [] \<and>
   map (\<lambda>e. (e ''id'', e ''created_at''))
     (resp_data (projr (getPaginated (setTenant (BaseService_new ''assets'') ''t1'')
        \<lparr>param_page = None, param_page_size = None, param_sort = None\<rparr> [] example_assets)))
     = [(Some (VStr ''a2''), Some (VTime 2)), (Some (VStr ''a1''), Some (VTime 1))] \<and>
   most_recent_first
     (resp_data (projr (getPaginated (setTenant (BaseService_new ''assets'') ''t1'')
        \<lparr>param_page = None, param_page_size = None, param_sort = None\<rparr> [] example_assets)))"
proof -
  let ?s = "setTenant (BaseService_new ''assets'') ''t1''"
  let ?params = "\<lparr>param_page = None, param_page_size = None, param_sort = None\<rparr>"
  let ?g = "getPaginated ?s ?params [] example_assets"
  have ref: "getCollectionRef ?s = Inr [''tenants'', ''t1'', ''assets'']"
    by (simp add: getCollectionRef_def bound_tenant_def setTenant_def BaseService_new_def)
  have g: "?g = Inr (projr ?g)"
    by (simp add: getPaginated_def ref Let_def)
  have d: "map (\<lambda>e. (e ''id'', e ''created_at'')) (resp_data (projr ?g))
     = [(Some (VStr ''a2''), Some (VTime 2)), (Some (VStr ''a1''), Some (VTime 1))]"
    by code_simp
  have m: "most_recent_first (resp_data (projr ?g))"
    using default_ordering [of ?params "[]" ?s example_assets "projr ?g"] g by simp
  show ?thesis
    using d m by simp
qed

section \<open>Verification of the maintenance service\<close>

lemma update_success:
  assumes "update s i data userId now db = (Inr (), db')"
  obtains p old where "getCollectionRef s = Inr p" and "getDoc (db p) i = Some old"
    and "db' = db(p := changeDoc (db p) i
                   (\<lambda>old. old ++ data(''updated_at'' \<mapsto> VTime now, ''updated_by'' \<mapsto> VStr userId)))"
proof -
  from assms obtain p where p: "getCollectionRef s = Inr p"
    by (auto simp: update_def getDocRef_def split: sum.splits)
  with assms have u: "updateDoc db p i (addAuditFields s data userId False now) = (Inr (), db')"
    by (simp add: update_def getDocRef_def)
  then have in_c: "i \<in> fst ` set (db p)"
    by (auto simp: updateDoc_result split: if_splits)
  then obtain old where "getDoc (db p) i = Some old"
    by (auto simp: getDoc_def dest: weak_map_of_SomeI)
  moreover from u in_c have "db' = db(p := changeDoc (db p) i
      (\<lambda>old. old ++ data(''updated_at'' \<mapsto> VTime now, ''updated_by'' \<mapsto> VStr userId)))"
    by (simp add: updateDoc_result addAuditFields_def)
  ultimately show thesis using p that by blast
qed

text \<open>\<open>startWork\<close> stamps \<open>started_at\<close>, each time it is called.\<close>

lemma startWork_stamps:
  assumes "startWork s ticketId userId now db = (Inr (), db')"
  shows "\<exists>p ticket. getCollectionRef s = Inr p \<and> getDoc (db' p) ticketId = Some ticket \<and>
           ticket ''status'' = Some (VStr ''in_progress'') \<and>
           ticket ''started_at'' = Some (VTime now)"
proof -
  from assms [unfolded startWork_def] show ?thesis
    by (rule update_success) (auto simp: getDoc_changeDoc)
qed

text \<open>\<open>assign\<close> moves the ticket to \<open>in_progress\<close> and leaves \<open>started_at\<close> as it was.\<close>

lemma assign_keeps_started_at:
  assumes "assign s ticketId technicianId assignedBy now db = (Inr (), db')"
  shows "\<exists>p old new. getCollectionRef s = Inr p \<and> getDoc (db p) ticketId = Some old \<and>
           getDoc (db' p) ticketId = Some new \<and>
           new ''status'' = Some (VStr ''in_progress'') \<and> new ''started_at'' = old ''started_at''"
proof -
  from assms [unfolded assign_def] show ?thesis
    by (rule update_success) (auto simp: getDoc_changeDoc map_add_def)
qed

text \<open>
  Claim C8 says that both \<open>assign\<close> and \<open>startWork\<close> record \<open>started_at\<close> when they move a
  ticket to \<open>in_progress\<close>. An open ticket that was never started is, after \<open>assign\<close>,
  in progress with no \<open>started_at\<close>.
\<close>

theorem assign_leaves_started_at_unset:
  "(let (result, db') =
      assign (setTenant (BaseService_new ''maintenance'') ''t1'') ''k1'' ''tech'' ''boss'' 5
        (empty_store([''tenants'', ''t1'', ''maintenance''] :=
           [(''k1'', [''status'' \<mapsto> VStr ''open''])]))
    in (result, map (\<lambda>(i, ticket). (i, ticket ''status'', ticket ''started_at''))
                  (db' [''tenants'', ''t1'', ''maintenance''])))
   = (Inr (), [(''k1'', Some (VStr ''in_progress''), None)])"
  by (simp add: assign_def update_def getDocRef_def getCollectionRef_def bound_tenant_def
        setTenant_def BaseService_new_def updateDoc_result changeDoc_def addAuditFields_def
        empty_store_def)

section \<open>Verification of the asset service\<close>

lemma getById_Some:
  assumes "getById s i db = Inr (Some asset)"
  obtains p d where "getCollectionRef s = Inr p" and "getDoc (db p) i = Some d"
    and "asset = entity (i, d)"
  using assms by (auto simp: getById_def getDocRef_def split: sum.splits option.splits)

lemma entity_field: "k \<noteq> ''id'' \<Longrightarrow> entity (i, d) k = d k"
  by (simp add: entity_def map_add_def split: option.splits)

lemma transferToOffice_success:
  assumes "collectionName s = ASSETS C"
    and "transferToOffice C s assetId toOfficeId transferredBy notes now db = (Inr (), db')"
  shows "\<exists>tid old new event.
           bound_tenant s = Some tid \<and>
           getDoc (db [''tenants'', tid, ASSETS C]) assetId = Some old \<and>
           getDoc (db' [''tenants'', tid, ASSETS C]) assetId = Some new \<and>
           new ''office_id'' = Some (VStr toOfficeId) \<and>
           new ''assigned_to'' = Some VNull \<and>
           new ''status'' = Some (VStr ''available'') \<and>
           db' [''tenants'', tid, ASSETS C, assetId, ASSET_EVENTS C] =
             db [''tenants'', tid, ASSETS C, assetId, ASSET_EVENTS C] @
             [(autoId (db [''tenants'', tid, ASSETS C, assetId, ASSET_EVENTS C]), event)] \<and>
           event ''event_type'' = Some (VStr ''transferred'') \<and>
           event ''from_office_id'' = old ''office_id'' \<and>
           event ''to_office_id'' = Some (VStr toOfficeId)"
proof -
  from assms(2) obtain tid where tid: "bound_tenant s = Some tid"
    by (auto simp: transferToOffice_def split: option.splits)
  let ?p = "[''tenants'', tid, ASSETS C]"
  let ?q = "[''tenants'', tid, ASSETS C, assetId, ASSET_EVENTS C]"
  have ref: "getCollectionRef s = Inr ?p"
    using tid assms(1) by (simp add: getCollectionRef_def)
  from assms(2) tid obtain asset where asset: "getById s assetId db = Inr (Some asset)"
    by (auto simp: transferToOffice_def split: sum.splits option.splits)
  then obtain old where old: "getDoc (db ?p) assetId = Some old"
    and a: "asset = entity (assetId, old)"
    using ref by (auto elim!: getById_Some)
  have in_c: "assetId \<in> fst ` set (db ?p)"
    using old by (rule getDoc_in)
  define upd :: fields where "upd =
     [''office_id'' \<mapsto> VStr toOfficeId, ''assigned_to'' \<mapsto> VNull, ''assigned_at'' \<mapsto> VNull,
      ''status'' \<mapsto> VStr ''available'', ''updated_at'' \<mapsto> VTime now,
      ''updated_by'' \<mapsto> VStr transferredBy]"
  define event :: fields where "event =
     [''tenant_id'' \<mapsto> VStr tid, ''asset_id'' \<mapsto> VStr assetId,
      ''event_type'' \<mapsto> VStr ''transferred'',
      ''description'' \<mapsto>
         VStr (if truthy notes then the notes else ''Asset transferred to another office''),
      ''to_office_id'' \<mapsto> VStr toOfficeId, ''created_at'' \<mapsto> VTime now,
      ''created_by'' \<mapsto> VStr transferredBy](''from_office_id'' := asset ''office_id'')"
  have db': "db' = (db(?p := changeDoc (db ?p) assetId (\<lambda>old. old ++ upd)))
                     (?q := setDoc (db ?q) (autoId (db ?q)) event)"
    using assms(2) tid asset in_c
    by (simp add: transferToOffice_def Let_def commit_def batch_set_def batch_update_def
          writeBatch_def upd_def event_def)
  have new: "getDoc (db' ?p) assetId = Some (old ++ upd)"
    by (simp add: db' getDoc_changeDoc old)
  have ev: "db' ?q = db ?q @ [(autoId (db ?q), event)]"
    by (simp add: db' setDoc_autoId)
  have "event ''from_office_id'' = old ''office_id''"
    by (simp add: event_def a entity_field)
  moreover have "(old ++ upd) ''office_id'' = Some (VStr toOfficeId)"
    "(old ++ upd) ''assigned_to'' = Some VNull"
    "(old ++ upd) ''status'' = Some (VStr ''available'')"
    by (simp_all add: upd_def)
  moreover have "event ''event_type'' = Some (VStr ''transferred'')"
    "event ''to_office_id'' = Some (VStr toOfficeId)"
    by (simp_all add: event_def)
  ultimately show ?thesis
    using tid old new ev
    by (intro exI [of _ tid] exI [of _ old] exI [of _ "old ++ upd"] exI [of _ event]) simp
qed

lemma transferToOffice_failure:
  "transferToOffice C s assetId toOfficeId transferredBy notes now db = (Inl e, db') \<Longrightarrow> db' = db"
  by (auto simp: transferToOffice_def commit_def Let_def split: option.splits sum.splits)

text \<open>
  Claim C5: for every asset and every prior state of it, after
  \<open>transferToOffice(assetId, toOfficeId, transferredBy)\<close> succeeds the asset's \<open>office_id\<close>
  is \<open>toOfficeId\<close>, its \<open>assigned_to\<close> is cleared (the code writes \<open>null\<close>) and its status
  is \<open>available\<close>, whatever its assignment and status were; a transfer event recording the
  old and the new office is appended in the same batch. The batch is atomic: when the
  operation fails the store is as it was.
\<close>

theorem transferToOffice_result:
  assumes "collectionName s = ASSETS C"
    and "transferToOffice C s assetId toOfficeId transferredBy notes now db = (result, db')"
  shows "(result = Inr () \<longrightarrow>
           (\<exists>tid old new event.
              bound_tenant s = Some tid \<and>
              getDoc (db [''tenants'', tid, ASSETS C]) assetId = Some old \<and>
              getDoc (db' [''tenants'', tid, ASSETS C]) assetId = Some new \<and>
              new ''office_id'' = Some (VStr toOfficeId) \<and>
              new ''assigned_to'' = Some VNull \<and>
              new ''status'' = Some (VStr ''available'') \<and>
              db' [''tenants'', tid, ASSETS C, assetId, ASSET_EVENTS C] =
                db [''tenants'', tid, ASSETS C, assetId, ASSET_EVENTS C] @
                [(autoId (db [''tenants'', tid, ASSETS C, assetId, ASSET_EVENTS C]), event)] \<and>
              event ''event_type'' = Some (VStr ''transferred'') \<and>
              event ''from_office_id'' = old ''office_id'' \<and>
              event ''to_office_id'' = Some (VStr toOfficeId))) \<and>
         (result \<noteq> Inr () \<longrightarrow> db' = db)"
proof (intro conjI impI)
  assume "result = Inr ()"
  with assms show "\<exists>tid old new event.
              bound_tenant s = Some tid \<and>
              getDoc (db [''tenants'', tid, ASSETS C]) assetId = Some old \<and>
              getDoc (db' [''tenants'', tid, ASSETS C]) assetId = Some new \<and>
              new ''office_id'' = Some (VStr toOfficeId) \<and>
              new ''assigned_to'' = Some VNull \<and>
              new ''status'' = Some (VStr ''available'') \<and>
              db' [''tenants'', tid, ASSETS C, assetId, ASSET_EVENTS C] =
                db [''tenants'', tid, ASSETS C, assetId, ASSET_EVENTS C] @
                [(autoId (db [''tenants'', tid, ASSETS C, assetId, ASSET_EVENTS C]), event)] \<and>
              event ''event_type'' = Some (VStr ''transferred'') \<and>
              event ''from_office_id'' = old ''office_id'' \<and>
              event ''to_office_id'' = Some (VStr toOfficeId)"
    by (intro transferToOffice_success) simp_all
next
  assume "result \<noteq> Inr ()"
  then obtain e where "result = Inl e"
    by (cases result) auto
  with assms(2) show "db' = db"
    by (auto dest: transferToOffice_failure)
qed

theorem transferToOffice_result_witness:
  "collectionName (setTenant (AssetService_new example_collections) ''t1'') =
     ASSETS example_collections \<and>
   fst (transferToOffice example_collections (setTenant (AssetService_new example_collections) ''t1'')
          ''a1'' ''o2'' ''admin'' None 10 example_assets) = Inr () \<and>
   (\<exists>new event.
      getDoc (snd (transferToOffice example_collections
                     (setTenant (AssetService_new example_collections) ''t1'')
                     ''a1'' ''o2'' ''admin'' None 10 example_assets)
                [''tenants'', ''t1'', ''assets'']) ''a1'' = Some new \<and>
      new ''office_id'' = Some (VStr ''o2'') \<and> new ''assigned_to'' = Some VNull \<and>
      new ''status'' = Some (VStr ''available'') \<and>
      map snd (snd (transferToOffice example_collections
                     (setTenant (AssetService_new example_collections) ''t1'')
                     ''a1'' ''o2'' ''admin'' None 10 example_assets)
                [''tenants'', ''t1'', ''assets'', ''a1'', ''events'']) = [event] \<and>
      event ''from_office_id'' = Some (VStr ''o1'') \<and> event ''to_office_id'' = Some (VStr ''o2''))"
proof -
  let ?s = "setTenant (AssetService_new example_collections) ''t1''"
  let ?r = "transferToOffice example_collections ?s ''a1'' ''o2'' ''admin'' None 10 example_assets"
  have n: "collectionName ?s = ASSETS example_collections"
    by (simp add: setTenant_def AssetService_new_def BaseService_new_def)
  have b: "bound_tenant ?s = Some ''t1''"
    by (simp add: bound_tenant_def setTenant_def AssetService_new_def BaseService_new_def)
  have c: "ASSETS example_collections = ''assets''"
    "ASSET_EVENTS example_collections = ''events''"
    by (simp_all add: example_collections_def)
  have g: "getById ?s ''a1'' example_assets \<noteq> Inr None \<and> \<not> isl (getById ?s ''a1'' example_assets)"
    by (simp add: getById_def getDocRef_def getCollectionRef_def b n c example_assets_def
          getDoc_def)
  have f: "fst ?r = Inr ()"
    using g
    by (auto simp: transferToOffice_def b c truthy_def example_assets_def Let_def
          commit_def batch_set_def batch_update_def writeBatch_def
        split: sum.splits option.splits)
  then have r: "?r = (Inr (), snd ?r)"
    by (metis prod.collapse)
  have old: "getDoc (example_assets [''tenants'', ''t1'', ''assets'']) ''a1'' =
     Some [''office_id'' \<mapsto> VStr ''o1'', ''assigned_to'' \<mapsto> VStr ''u7'',
           ''status'' \<mapsto> VStr ''in_use'', ''created_at'' \<mapsto> VTime 1]"
    by (simp add: example_assets_def getDoc_def)
  have ev: "example_assets [''tenants'', ''t1'', ''assets'', ''a1'', ''events''] = []"
    by (simp add: example_assets_def empty_store_def)
  from transferToOffice_result [OF n r] b old ev show ?thesis
    using n f by (auto simp: c)
qed

section \<open>Verification of the stock service\<close>

text \<open>An operation of the stock service that fails leaves the store as it was.\<close>

lemma issue_failure:
  "issue s officeId consumableId q issuedTo userId notes now sdb = (Inl e, sdb') \<Longrightarrow> sdb' = sdb"
  by (auto simp: issue_def commit_def Let_def split: option.splits sum.splits if_splits)

text \<open>
  Claim C3: when an issue of quantity \<open>q\<close> is requested, on a service bound to a tenant,
  for an office and consumable whose stock record holds a balance below \<open>q\<close>, or that have
  no stock record, the operation fails with the error \<open>Insufficient stock\<close> and the store is
  as before: the balance is unchanged and no transaction record is created. The same holds
  for a transfer out of that office, whose error reads
  \<open>Insufficient stock in source office\<close>.
\<close>

theorem insufficient_stock_rejected:
  assumes "bound_tenant s = Some t"
    and "getConsumableStock s officeId consumableId sdb = Inr None \<or>
         (\<exists>stockId stock.
            getConsumableStock s officeId consumableId sdb = Inr (Some (stockId, stock)) \<and>
            OfficeStock.quantity stock < q)"
  shows "issue s officeId consumableId q issuedTo userId notes now sdb =
           (Inl (Error ''Insufficient stock''), sdb) \<and>
         transfer s officeId toOfficeId consumableId q userId notes now sdb =
           (Inl (Error ''Insufficient stock in source office''), sdb)"
  using assms by (auto simp: issue_def transfer_def)

theorem insufficient_stock_rejected_witness:
  "bound_tenant (setTenant StockService_new ''t1'') = Some ''t1'' \<and>
   map (\<lambda>(i, d). (i, OfficeStock.quantity d)) (office_stock example_stock ''t1'') = [(''s1'', 3)] \<and>
   issue (setTenant StockService_new ''t1'') ''o1'' ''c1'' 5 ''u2'' ''u1'' None 9 example_stock =
     (Inl (Error ''Insufficient stock''), example_stock) \<and>
   transfer (setTenant StockService_new ''t1'') ''o1'' ''o2'' ''c1'' 5 ''u1'' None 9 example_stock =
     (Inl (Error ''Insufficient stock in source office''), example_stock)"
proof -
  let ?s = "setTenant StockService_new ''t1''"
  have b: "bound_tenant ?s = Some ''t1''"
    by (simp add: bound_tenant_def setTenant_def StockService_new_def)
  have g: "getConsumableStock ?s ''o1'' ''c1'' example_stock =
             Inr (Some (''s1'',
               \<lparr>OfficeStock.tenant_id = ''t1'', OfficeStock.office_id = ''o1'',
                OfficeStock.consumable_id = ''c1'', OfficeStock.quantity = 3,
                last_restocked = None, last_issued = None, OfficeStock.updated_at = 0\<rparr>))"
    by code_simp
  have h: "getConsumableStock ?s ''o1'' ''c1'' example_stock = Inr None \<or>
         (\<exists>stockId stock.
            getConsumableStock ?s ''o1'' ''c1'' example_stock = Inr (Some (stockId, stock)) \<and>
            OfficeStock.quantity stock < 5)"
    by (simp add: g)
  have q: "map (\<lambda>(i, d). (i, OfficeStock.quantity d)) (office_stock example_stock ''t1'') =
             [(''s1'', 3)]"
    by (simp add: example_stock_def)
  show ?thesis
    using b q insufficient_stock_rejected [OF b h, of "''u2''" "''u1''" None 9 "''o2''"] by simp
qed

section \<open>Verification of the audit log service\<close>

lemma log_appends: "prefix (adb t) (snd (log s params now adb) t)"
  by (simp add: log_def setDoc_autoId split: option.splits)

lemma audit_step_appends: "prefix (snd st t) (snd (audit_step st call) t)"
proof -
  obtain s adb where st: "st = (s, adb)" by (cases st)
  obtain now c where call: "call = (now, c)" by (cases call)
  show ?thesis
    unfolding st call
    by (cases c) (auto simp: log_appends split: prod.splits)
qed

text \<open>
  Claim C6: every operation of the audit log service preserves the audit log entries
  written before it: an entry is never updated or deleted, and after any sequence of
  operations of the service the entries of every tenant before it are a prefix of the
  entries after it.
\<close>

theorem audit_log_append_only: "prefix (adb t) (snd (audit_run (s, adb) calls) t)"
proof -
  have "prefix (snd st t) (snd (foldl audit_step st calls) t)" for st
  proof (induction calls arbitrary: st)
    case Nil
    show ?case by simp
  next
    case (Cons c calls)
    from audit_step_appends [of st t c] Cons [of "audit_step st c"]
    show ?case by (auto intro: prefix_order.trans)
  qed
  from this [of "(s, adb)"] show ?thesis by (simp add: audit_run_def)
qed

theorem audit_log_append_only_witness:
  "prefix (example_audit ''t1'')
     (snd (audit_run (AuditLogService_new, example_audit)
        [(1, SetTenant ''t1''),
         (2, LogLogin (''u1'', ''u1@example.org'', ''Una'') ''org1'' None None),
         (3, GetEntityLogs ''user'' ''u1'')]) ''t1'') \<and>
   map (\<lambda>(i, e). (log_action e, AuditLog.created_at e))
     (snd (audit_run (AuditLogService_new, example_audit)
        [(1, SetTenant ''t1''),
         (2, LogLogin (''u1'', ''u1@example.org'', ''Una'') ''org1'' None None),
         (3, GetEntityLogs ''user'' ''u1'')]) ''t1'') = [(''login'', 2)]"
proof -
  have "map (\<lambda>(i, e). (log_action e, AuditLog.created_at e))
     (snd (audit_run (AuditLogService_new, example_audit)
        [(1, SetTenant ''t1''),
         (2, LogLogin (''u1'', ''u1@example.org'', ''Una'') ''org1'' None None),
         (3, GetEntityLogs ''user'' ''u1'')]) ''t1'') = [(''login'', 2)]"
    by (simp add: audit_run_def AuditLogService_new_def example_audit_def setTenant_def log_def
          bound_tenant_def setDoc_def)
  then show ?thesis
    using audit_log_append_only [of example_audit "''t1''" AuditLogService_new
        "[(1, SetTenant ''t1''),
          (2, LogLogin (''u1'', ''u1@example.org'', ''Una'') ''org1'' None None),
          (3, GetEntityLogs ''user'' ''u1'')]"]
    by simp
qed

end
